theory Spec2Isabelle
  imports Complex_Main "HOL-Library.AList"
begin

section \<open>Conventions of the embedding\<close>

text \<open>
  The trading core of PiTrader (\<^verbatim>\<open>src/modules/risk.py\<close>, \<^verbatim>\<open>health.py\<close>,
  \<^verbatim>\<open>drawdown.py\<close>, \<^verbatim>\<open>trade.py\<close>) is embedded function by function.

  \<^item> A Python \<^verbatim>\<open>float\<close> is a \<^typ>\<open>real\<close>: the arithmetic is exact, so an identity that
    the program satisfies up to rounding error is an equation here.
  \<^item> A value that may be \<^verbatim>\<open>None\<close> (or a missing dictionary key) is an \<^typ>\<open>'a option\<close>.
  \<^item> A text is a \<^typ>\<open>string\<close> whose characters are code points below 256.
  \<^item> A timestamp is an \<^typ>\<open>int\<close>, the number of seconds since the epoch; the clock
    (\<^verbatim>\<open>datetime.utcnow()\<close>) is an explicit argument \<open>now\<close>.
  \<^item> The module-level \<^verbatim>\<open>state\<close> dictionary is a record that every operation takes and
    returns; log lines are not part of the state.
\<close>

type_synonym time = int

subsection \<open>Rounding\<close>

text \<open>
  \<^verbatim>\<open>round(x, 8)\<close>: the nearest multiple of \<open>10\<^sup>-\<^sup>8\<close>, a tie going to the even multiple.
\<close>

definition py_round :: "real \<Rightarrow> int" where
  "py_round x =
     (let f = \<lfloor>x\<rfloor>; d = x - of_int f
      in if d < 1 / 2 then f
         else if 1 / 2 < d then f + 1
         else if even f then f else f + 1)"

definition round8 :: "real \<Rightarrow> real" where
  "round8 x = of_int (py_round (x * 10 ^ 8)) / 10 ^ 8"

text \<open>\<^verbatim>\<open>round(x, n)\<close> for the other numbers of decimals the program uses.\<close>

definition round_to :: "nat \<Rightarrow> real \<Rightarrow> real" where
  "round_to n x = of_int (py_round (x * 10 ^ n)) / 10 ^ n"

subsection \<open>Strings\<close>

text \<open>
  Decimal digits of a natural number, \<^verbatim>\<open>str(int)\<close>, and the fixed-point format
  \<^verbatim>\<open>f"{x:.df}"\<close> (sign, integer part, \<open>d\<close> rounded decimals).
\<close>

fun show_nat :: "nat \<Rightarrow> string" where
  "show_nat n =
     (if n < 10 then [char_of (48 + n)]
      else show_nat (n div 10) @ [char_of (48 + n mod 10)])"

declare show_nat.simps [simp del]

definition show_int :: "int \<Rightarrow> string" where
  "show_int i = (if i < 0 then ''-'' @ show_nat (nat (- i)) else show_nat (nat i))"

definition fmt_fixed :: "nat \<Rightarrow> real \<Rightarrow> string" where
  "fmt_fixed d x =
     (let n = nat (py_round (\<bar>x\<bar> * 10 ^ d));
          frac = show_nat (n mod 10 ^ d)
      in (if x < 0 then ''-'' else [])
         @ show_nat (n div 10 ^ d)
         @ (if d = 0 then [] else ''.'' @ replicate (d - length frac) (CHR ''0'') @ frac))"

text \<open>\<^verbatim>\<open>s[-n:]\<close>, \<^verbatim>\<open>sep.join(xs)\<close> and \<^verbatim>\<open>s.endswith(t)\<close>.\<close>

definition py_last :: "nat \<Rightarrow> 'a list \<Rightarrow> 'a list" where
  "py_last n xs = drop (length xs - n) xs"

fun join :: "string \<Rightarrow> string list \<Rightarrow> string" where
  "join sep [] = []"
| "join sep [x] = x"
| "join sep (x # y # ys) = x @ sep @ join sep (y # ys)"

definition endswith :: "string \<Rightarrow> string \<Rightarrow> bool" where
  "endswith s t = (length t \<le> length s \<and> drop (length s - length t) s = t)"

text \<open>
  \<^verbatim>\<open>str.lower\<close>, \<^verbatim>\<open>str.upper\<close> and \<^verbatim>\<open>str.strip\<close>. A character is a code point below 256.
  In that range the capital letters are \<open>A\<close> to \<open>Z\<close> and the code points 192 to 222 without 215,
  each 32 below its small letter; the small letters 181 and 255 have their capitals beyond
  255 and the capital of 223 is \<open>SS\<close>. The program only compares an upper-cased text with words
  of ASCII letters, and 181 and 255 are left as they are here, which decides every such
  comparison as the capital beyond 255 would. The white space that \<^verbatim>\<open>strip\<close> removes is 9 to 13,
  28 to 32, 133 and 160.
\<close>

definition lower_char :: "char \<Rightarrow> char" where
  "lower_char c =
     (let n = (of_char c :: nat)
      in if (65 \<le> n \<and> n \<le> 90) \<or> (192 \<le> n \<and> n \<le> 222 \<and> n \<noteq> 215) then char_of (n + 32)
         else c)"

definition py_lower :: "string \<Rightarrow> string" where
  "py_lower s = map lower_char s"

definition upper_chars :: "char \<Rightarrow> string" where
  "upper_chars c =
     (let n = (of_char c :: nat)
      in if (97 \<le> n \<and> n \<le> 122) \<or> (224 \<le> n \<and> n \<le> 254 \<and> n \<noteq> 247) then [char_of (n - 32)]
         else if n = 223 then ''SS''
         else [c])"

definition py_upper :: "string \<Rightarrow> string" where
  "py_upper s = concat (map upper_chars s)"

definition is_space :: "char \<Rightarrow> bool" where
  "is_space c =
     (let n = (of_char c :: nat)
      in (9 \<le> n \<and> n \<le> 13) \<or> (28 \<le> n \<and> n \<le> 32) \<or> n = 133 \<or> n = 160)"

definition strip :: "string \<Rightarrow> string" where
  "strip s = rev (dropWhile is_space (rev (dropWhile is_space s)))"

section \<open>Configuration (\<^verbatim>\<open>config.py\<close>)\<close>

text \<open>The constants the core reads, under their names in \<^verbatim>\<open>config.py\<close>.\<close>

record config =
  MAX_LEV :: int
  RISK_NUCLEAR :: real
  RISK_SAFE :: real
  SAFE_ASSETS :: "string list"
  DRY_RUN_ORDERS :: bool
  SIMULATION_MODE :: bool
  READINESS_HOURS :: real
  HEALTH_DEGRADED_FAILURES :: int
  HEALTH_OUTAGE_FAILURES :: int
  HEALTH_RECOVER_SUCCESS_STREAK :: int
  HEALTH_OUTAGE_FLATTEN_SEC :: int
  HEALTH_BLOCK_RECOVERING :: bool
  DD_DAILY_LIMIT_PCT :: real
  DD_WEEKLY_LIMIT_PCT :: real
  DD_ATH_TRAILING_LIMIT_PCT :: real
  DD_AUTO_FLATTEN :: bool
  DD_AUTO_PARK :: bool
  SIM_TAKER_FEE_RATE :: real
  SIM_FUNDING_RATE_PER_8H :: real
  SIM_SLIPPAGE_MIN_PCT :: real
  SIM_SLIPPAGE_MAX_PCT :: real
  SIM_SLIPPAGE_ATR_MULT :: real
  REGIME_RISK_MULT_TREND :: real
  REGIME_RISK_MULT_CHOP :: real
  REGIME_RISK_MULT_HIGH_VOL :: real
  REGIME_LEV_CAP_TREND :: int
  REGIME_LEV_CAP_CHOP :: int
  REGIME_LEV_CAP_HIGH_VOL :: int
  REGIME_MIN_RR_ADD_TREND :: real
  REGIME_MIN_RR_ADD_CHOP :: real
  REGIME_MIN_RR_ADD_HIGH_VOL :: real
  DECISION_MIN_PUMP_SCORE :: int
  DECISION_MIN_VOL_SPIKE :: real
  DECISION_MIN_RR_AGGRESSIVE :: real
  DECISION_MIN_RR_SAFE :: real
  EXEC_POST_ONLY_ENABLED :: bool
  EXEC_POST_ONLY_OFFSET_PCT :: real
  EXEC_IOC_FALLBACK_ENABLED :: bool
  EXEC_IOC_SLIPPAGE_PCT :: real
  EXEC_MARKET_FALLBACK_ENABLED :: bool
  EXEC_MARKET_GUARD_MAX_SPREAD_PCT :: real
  EXEC_MARKET_GUARD_MAX_SIZE_TO_VOL1M_PCT :: real
  EXEC_MARKET_GUARD_LIMIT_RETRY_ENABLED :: bool
  EXEC_MARKET_GUARD_RETRY_IOC_SLIPPAGE_PCT :: real
  PYRAMID_ENABLED :: bool
  PYRAMID_RR_TRIGGER :: real
  PYRAMID_ADD_FRACTION :: real
  PYRAMID_MAX_ADDS :: int
  PYRAMID_MIN_CONVICTION :: int
  PYRAMID_MAX_EXPOSURE_PCT :: real

text \<open>The defaults of \<^verbatim>\<open>config.py\<close>.\<close>

definition default_config :: config where
  "default_config =
     \<lparr>MAX_LEV = 10, RISK_NUCLEAR = 0.12, RISK_SAFE = 0.015,
      SAFE_ASSETS = [''BTC-PERP-INTX'', ''ETH-PERP-INTX'', ''SOL-PERP-INTX''],
      DRY_RUN_ORDERS = True, SIMULATION_MODE = False, READINESS_HOURS = 12,
      HEALTH_DEGRADED_FAILURES = 2, HEALTH_OUTAGE_FAILURES = 5,
      HEALTH_RECOVER_SUCCESS_STREAK = 2, HEALTH_OUTAGE_FLATTEN_SEC = 300,
      HEALTH_BLOCK_RECOVERING = True,
      DD_DAILY_LIMIT_PCT = 5, DD_WEEKLY_LIMIT_PCT = 17.5, DD_ATH_TRAILING_LIMIT_PCT = 30,
      DD_AUTO_FLATTEN = True, DD_AUTO_PARK = True,
      SIM_TAKER_FEE_RATE = 0.0006, SIM_FUNDING_RATE_PER_8H = 0.0003,
      SIM_SLIPPAGE_MIN_PCT = 0.10, SIM_SLIPPAGE_MAX_PCT = 0.50, SIM_SLIPPAGE_ATR_MULT = 0.50,
      REGIME_RISK_MULT_TREND = 1, REGIME_RISK_MULT_CHOP = 0.7, REGIME_RISK_MULT_HIGH_VOL = 0.5,
      REGIME_LEV_CAP_TREND = 8, REGIME_LEV_CAP_CHOP = 5, REGIME_LEV_CAP_HIGH_VOL = 3,
      REGIME_MIN_RR_ADD_TREND = 0, REGIME_MIN_RR_ADD_CHOP = 0.2,
      REGIME_MIN_RR_ADD_HIGH_VOL = 0.3,
      DECISION_MIN_PUMP_SCORE = 15, DECISION_MIN_VOL_SPIKE = 1,
      DECISION_MIN_RR_AGGRESSIVE = 1.5, DECISION_MIN_RR_SAFE = 2,
      EXEC_POST_ONLY_ENABLED = True, EXEC_POST_ONLY_OFFSET_PCT = 0.02,
      EXEC_IOC_FALLBACK_ENABLED = True, EXEC_IOC_SLIPPAGE_PCT = 0.05,
      EXEC_MARKET_FALLBACK_ENABLED = True, EXEC_MARKET_GUARD_MAX_SPREAD_PCT = 0.35,
      EXEC_MARKET_GUARD_MAX_SIZE_TO_VOL1M_PCT = 0.5,
      EXEC_MARKET_GUARD_LIMIT_RETRY_ENABLED = True,
      EXEC_MARKET_GUARD_RETRY_IOC_SLIPPAGE_PCT = 0.08,
      PYRAMID_ENABLED = True, PYRAMID_RR_TRIGGER = 1.5, PYRAMID_ADD_FRACTION = 0.30,
      PYRAMID_MAX_ADDS = 2, PYRAMID_MIN_CONVICTION = 80, PYRAMID_MAX_EXPOSURE_PCT = 0.18\<rparr>"

section \<open>Data model\<close>

text \<open>
  The dictionaries of \<^verbatim>\<open>state\<close> that hold one entry per asset. An asset without an entry
  reads as an entry whose fields are all missing, as
  \<^verbatim>\<open>(state.get("exec_liq_cache", {}) or {}).get(asset) or {}\<close> does.
\<close>

record liq =
  spread_pct :: "real option"
  mid :: "real option"
  volume_1m :: "real option"

record micro =
  bid_depth_usd :: "real option"
  ask_depth_usd :: "real option"
  ob_imbalance :: "real option"
  tape_delta_pct :: "real option"
  tape_delta_usd :: "real option"
  tape_large_trades :: "int option"
  tape_source :: "string option"
  micro_ts :: "time option"

record vol =
  atr_1h :: "real option"
  atr_6h :: "real option"

record position =
  pos_side :: string
  pos_size :: real

definition empty_liq :: liq where
  "empty_liq = \<lparr>spread_pct = None, mid = None, volume_1m = None\<rparr>"

definition empty_micro :: micro where
  "empty_micro =
     \<lparr>bid_depth_usd = None, ask_depth_usd = None, ob_imbalance = None, tape_delta_pct = None,
      tape_delta_usd = None, tape_large_trades = None, tape_source = None, micro_ts = None\<rparr>"

definition empty_vol :: vol where
  "empty_vol = \<lparr>atr_1h = None, atr_6h = None\<rparr>"

text \<open>A trade, as \<^verbatim>\<open>execute\<close> creates it and the monitor updates it. The field \<^verbatim>\<open>size\<close> is
  \<open>trade_size\<close> here, \<^verbatim>\<open>regime\<close> is \<open>trade_regime\<close> and \<^verbatim>\<open>ts\<close> is \<open>trade_ts\<close>.\<close>

datatype trade_status = Open | Closed

record trade =
  trade_ts :: "time option"
  asset :: string
  side :: string
  trade_size :: real
  initial_size :: real
  remaining_size :: real
  status :: trade_status
  entry :: real
  entry_ref_price :: real
  entry_slippage_pct :: real
  best_price :: "real option"
  leverage :: int
  stop :: "real option"
  take_profit :: "real option"
  trailing_activation_pct :: "real option"
  trailing_pct :: "real option"
  expected_hold_min :: "int option"
  funding_last_ts :: "time option"
  pump_score :: int
  decision_id :: "string option"
  conviction :: int
  sleeve :: string
  trade_regime :: string
  rr :: "real option"
  vol_spike :: "real option"
  execution_path :: string
  exec_gate_soft_penalty :: int
  guard_spread_pct :: "real option"
  guard_size_to_vol1m_pct :: "real option"
  partial_15 :: bool
  partial_30 :: bool
  pyramid_base_size :: real
  pyramid_add_count :: int
  pyramid_last_rr :: "real option"
  pyramid_last_ts :: "time option"
  realized_pnl :: real
  realized_gross_pnl :: real
  realized_fees :: real
  realized_funding :: real
  reason :: string
  closed_ts :: "time option"
  close_reason :: "string option"

text \<open>A decision handed to \<^verbatim>\<open>execute\<close>; a key the dictionary lacks is \<open>None\<close>.\<close>

record decision =
  d_decision :: string
  d_asset :: "string option"
  d_decision_id :: "string option"
  d_id :: "string option"
  d_price :: "real option"
  d_sleeve :: "string option"
  d_pump_score :: "int option"
  d_leverage :: "int option"
  d_contracts :: "real option"
  d_stop :: "real option"
  d_take_profit :: "real option"
  d_trailing_activation_pct :: "real option"
  d_trailing_pct :: "real option"
  d_expected_hold_min :: "int option"
  d_conviction :: "int option"
  d_conviction_raw_execgate :: "int option"
  d_risk_pct_override :: "real option"
  d_reason :: "string option"

text \<open>The payload of an audit event is a JSON value.\<close>

datatype pv =
    PNone
  | PBool bool
  | PInt int
  | PReal real
  | PStr string
  | PList "pv list"
  | PDict "(string \<times> pv) list"

text \<open>A row of \<^verbatim>\<open>trade_events\<close>; the random \<^verbatim>\<open>event_id\<close> is left out.\<close>

record event =
  ev_ts :: time
  ev_type :: string
  ev_decision_id :: "string option"
  ev_trade_id :: "string option"
  ev_asset :: "string option"
  ev_payload :: "(string \<times> pv) list"

text \<open>A row of the journal table \<^verbatim>\<open>trades\<close>, keyed by the trade id.\<close>

record journal_row =
  j_ts :: "time option"
  j_asset :: string
  j_side :: string
  j_size :: real
  j_entry :: real
  j_exit :: real
  j_pnl :: real
  j_pnl_gross :: real
  j_fee_cost :: real
  j_funding_cost :: real
  j_reason :: string

text \<open>
  The exchange client. A call either returns or raises; the text of an exception is what
  \<^verbatim>\<open>str(exc)\<close> gives; the three kinds that some handler names are told apart from the rest.
  The random \<^verbatim>\<open>client_order_id\<close> is left out of a call. The client's answer may depend on
  the call and on how many calls were made before it.
\<close>

datatype exn = TypeError string | ValueError string | AttributeError string | OtherError string

fun exn_text :: "exn \<Rightarrow> string" where
  "exn_text (TypeError m) = m"
| "exn_text (ValueError m) = m"
| "exn_text (AttributeError m) = m"
| "exn_text (OtherError m) = m"

datatype order_call =
    Limit_order_gtc string string string string bool "string option"
  | Limit_order_ioc string string string string "string option"
  | Market_order string string string "string option"
  | Market_order_positional string string real

type_synonym client = "nat \<Rightarrow> order_call \<Rightarrow> exn option"

text \<open>The drawdown guard's slice of \<^verbatim>\<open>state\<close>, with the durable \<^verbatim>\<open>equity_history\<close> table.
  A point is a timestamp (\<open>None\<close> when its text does not parse) and an equity.\<close>

record drawdown =
  equity_history :: "(time option \<times> real) list"
  db_equity_history :: "(time option \<times> real) list"
  drawdown_paused :: bool
  drawdown_pause_reason :: string
  drawdown_pause_ts :: "time option"
  drawdown_daily_date :: "int option"
  drawdown_daily_peak :: real
  drawdown_weekly_peak :: real
  drawdown_ath_peak :: real
  drawdown_daily_dd_pct :: real
  drawdown_weekly_dd_pct :: real
  drawdown_ath_dd_pct :: real

text \<open>The health monitor's slice of \<^verbatim>\<open>state\<close>.\<close>

datatype health_status = Healthy | Degraded | Recovering | Outage

record health =
  health_state :: health_status
  health_last_transition_ts :: time
  health_consecutive_failures :: nat
  health_consecutive_successes :: nat
  health_last_success_ts :: "time option"
  health_last_failure_ts :: "time option"
  health_last_failure_reason :: string
  health_outage_since_ts :: "time option"
  health_recovering_since_ts :: "time option"
  health_outage_flattened :: bool

text \<open>
  The shared \<^verbatim>\<open>state\<close> dictionary, with the durable tables (\<^verbatim>\<open>live_trades\<close>, the journal,
  \<^verbatim>\<open>trade_events\<close>), the calls made to the exchange so far, and the park marker file.
  \<^verbatim>\<open>state["trades"]\<close> keeps its insertion order, which the loops over it follow. A timer is
  the time at which its task wakes up.
\<close>

record state =
  trades :: "(string \<times> trade) list"
  timers :: "string \<rightharpoonup> time"
  price :: "string \<rightharpoonup> real"
  positions :: "(string \<times> position) list"
  equity :: real
  sim_realized_pnl :: real
  sim_base_equity :: "real option"
  mode :: string
  aggr_target :: real
  safe_target :: real
  parked :: bool
  ready_to_trade :: bool
  started_at :: "time option"
  regime :: string
  vol_cache :: "string \<rightharpoonup> vol"
  exec_liq_cache :: "string \<rightharpoonup> liq"
  micro_cache :: "string \<rightharpoonup> micro"
  health :: health
  dd :: drawdown
  decision_gate_last_ok :: bool
  decision_gate_last_reason :: string
  decision_gate_last_ts :: "time option"
  execution_gate_last_ok :: bool
  execution_gate_last_reason :: string
  execution_gate_last_ts :: "time option"
  execution_last_ok :: bool
  execution_last_path :: string
  execution_last_reason :: string
  execution_last_ts :: "time option"
  db_live_trades :: "string \<rightharpoonup> trade"
  db_trades :: "string \<rightharpoonup> journal_row"
  db_trade_events :: "event list"
  orders :: "order_call list"
  park_flag :: bool

section \<open>RiskCalculator (\<^verbatim>\<open>risk.py\<close>) and the risk/reward ratios of \<^verbatim>\<open>trade.py\<close>\<close>

definition derive_stop_take_profit ::
  "string \<Rightarrow> real \<Rightarrow> real option \<Rightarrow> int \<Rightarrow> real option \<times> real option" where
  "derive_stop_take_profit decision entry atr pump_score =
     (case atr of
        None \<Rightarrow> (None, None)
      | Some a \<Rightarrow>
          (let stop_mult = (if 60 \<le> pump_score then 1.8 else 2.5);
               tp_mult = (if 60 \<le> pump_score then 2.7 else 3.8)
           in if decision = ''open_long''
              then (Some (entry - stop_mult * a), Some (entry + tp_mult * a))
              else (Some (entry + stop_mult * a), Some (entry - tp_mult * a))))"
  for entry pump_score

text \<open>\<^verbatim>\<open>_calc_rr\<close>: \<^verbatim>\<open>None\<close> when a level is missing, \<open>0\<close> when risk or reward is not positive.\<close>

definition calc_rr :: "string \<Rightarrow> real \<Rightarrow> real option \<Rightarrow> real option \<Rightarrow> real option" where
  "calc_rr decision entry stop take_profit =
     (case (stop, take_profit) of
        (Some st, Some tp) \<Rightarrow>
          (let risk = (if decision = ''open_long'' then entry - st else st - entry);
               reward = (if decision = ''open_long'' then tp - entry else entry - tp)
           in if risk \<le> 0 \<or> reward \<le> 0 then Some 0 else Some (reward / risk))
      | _ \<Rightarrow> None)"
  for entry stop take_profit

text \<open>\<^verbatim>\<open>_calc_rr_now\<close>: the reward is the move made so far; \<^verbatim>\<open>None\<close> without a positive risk
  (a missing stop makes \<^verbatim>\<open>float(None)\<close> raise \<^verbatim>\<open>TypeError\<close>, which the function catches).\<close>

definition calc_rr_now :: "string \<Rightarrow> real \<Rightarrow> real option \<Rightarrow> real \<Rightarrow> real option" where
  "calc_rr_now side entry stop current_price =
     (case stop of
        None \<Rightarrow> None
      | Some st \<Rightarrow>
          (let risk = (if side = ''BUY'' then entry - st else st - entry);
               reward = (if side = ''BUY'' then current_price - entry else entry - current_price)
           in if risk \<le> 0 then None else Some (reward / risk)))"
  for side entry stop

section \<open>HealthMonitor (\<^verbatim>\<open>health.py\<close>)\<close>

definition set_health_state :: "time \<Rightarrow> health_status \<Rightarrow> health \<Rightarrow> health" where
  "set_health_state now new_state h =
     (if health_state h = new_state then h
      else
        (let h1 = h\<lparr>health_state := new_state, health_last_transition_ts := now\<rparr>
         in if new_state = Outage
            then h1\<lparr>health_outage_since_ts := Some now,
                    health_outage_flattened := False,
                    health_recovering_since_ts := None\<rparr>
            else if new_state = Recovering
            then h1\<lparr>health_recovering_since_ts := Some now\<rparr>
            else h1\<lparr>health_outage_since_ts := None, health_recovering_since_ts := None\<rparr>))"

text \<open>\<^verbatim>\<open>mark_exchange_failure(source, exc)\<close>; \<open>exc\<close> is the text of the exception, if one is given
  (an exception object counts as given whatever its text).\<close>

definition mark_exchange_failure ::
  "config \<Rightarrow> time \<Rightarrow> string \<Rightarrow> string option \<Rightarrow> health \<Rightarrow> health" where
  "mark_exchange_failure cfg now source exc h =
     (let failure_count = health_consecutive_failures h + 1;
          message = (case exc of Some m \<Rightarrow> take 180 m | None \<Rightarrow> ''failure'');
          reason = source @ '': '' @ message;
          h1 = h\<lparr>health_consecutive_failures := failure_count,
                  health_consecutive_successes := 0,
                  health_last_failure_ts := Some now,
                  health_last_failure_reason := reason\<rparr>
      in if HEALTH_OUTAGE_FAILURES cfg \<le> int failure_count
         then set_health_state now Outage h1
         else if health_state h1 = Healthy \<and> HEALTH_DEGRADED_FAILURES cfg \<le> int failure_count
         then set_health_state now Degraded h1
         else if health_state h1 = Recovering
         then set_health_state now Outage h1
         else h1)"

definition mark_exchange_success :: "config \<Rightarrow> time \<Rightarrow> string \<Rightarrow> health \<Rightarrow> health" where
  "mark_exchange_success cfg now source h =
     (let success_count = health_consecutive_successes h + 1;
          h1 = h\<lparr>health_last_success_ts := Some now,
                  health_consecutive_failures := 0,
                  health_consecutive_successes := success_count\<rparr>
      in if health_state h1 = Healthy then h1
         else if health_state h1 = Outage then set_health_state now Recovering h1
         else if HEALTH_RECOVER_SUCCESS_STREAK cfg \<le> int success_count
         then set_health_state now Healthy h1
         else h1)"

definition entries_blocked :: "config \<Rightarrow> health \<Rightarrow> bool" where
  "entries_blocked cfg h =
     (if health_state h = Outage then True
      else if health_state h = Recovering \<and> HEALTH_BLOCK_RECOVERING cfg then True
      else False)"

text \<open>The outcomes of exchange calls, in the order they are reported to the monitor.\<close>

datatype health_event =
    Failure time string "string option"
  | Success time string

fun is_failure :: "health_event \<Rightarrow> bool" where
  "is_failure (Failure _ _ _) = True"
| "is_failure (Success _ _) = False"

fun health_step :: "config \<Rightarrow> health \<Rightarrow> health_event \<Rightarrow> health" where
  "health_step cfg h (Failure now source exc) = mark_exchange_failure cfg now source exc h"
| "health_step cfg h (Success now source) = mark_exchange_success cfg now source h"

fun health_run :: "config \<Rightarrow> health \<Rightarrow> health_event list \<Rightarrow> health" where
  "health_run cfg h [] = h"
| "health_run cfg h (ev # evs) = health_run cfg (health_step cfg h ev) evs"

section \<open>Execution guards and the order router (\<^verbatim>\<open>trade.py\<close>)\<close>

text \<open>\<^verbatim>\<open>float(x or d)\<close> for a configured number: a zero reads as the default.\<close>

definition or_default :: "real \<Rightarrow> real \<Rightarrow> real" where
  "or_default x d = (if x = 0 then d else x)"

definition opt_or_zero :: "real option \<Rightarrow> real" where
  "opt_or_zero x = (case x of None \<Rightarrow> 0 | Some v \<Rightarrow> v)"

definition close_side_from_open :: "string \<Rightarrow> string" where
  "close_side_from_open open_side = (if open_side = ''BUY'' then ''SELL'' else ''BUY'')"

definition format_base_size :: "real \<Rightarrow> string" where
  "format_base_size v = fmt_fixed 8 \<bar>v\<bar>"

definition format_limit_price :: "real \<Rightarrow> string" where
  "format_limit_price v = fmt_fixed 8 (max v 0)"

text \<open>\<^verbatim>\<open>_exec_limit_price\<close>; a missing reference price makes \<^verbatim>\<open>float(None)\<close> raise, which is
  caught and read as \<open>0\<close>.\<close>

definition exec_limit_price :: "real option \<Rightarrow> string \<Rightarrow> real \<Rightarrow> bool \<Rightarrow> real" where
  "exec_limit_price reference_price side offset_pct maker =
     (let ref = opt_or_zero reference_price
      in if ref \<le> 0 then 0
         else
           (let offset = max 0 offset_pct / 100
            in if maker
               then (if side = ''BUY'' then ref * (1 - offset) else ref * (1 + offset))
               else (if side = ''BUY'' then ref * (1 + offset) else ref * (1 - offset))))"
  for side

definition record_execution_result :: "time \<Rightarrow> bool \<Rightarrow> string \<Rightarrow> string \<Rightarrow> state \<Rightarrow> state" where
  "record_execution_result now ok path reason s =
     s\<lparr>execution_last_ok := ok,
       execution_last_path := path,
       execution_last_reason := take 180 reason,
       execution_last_ts := Some now\<rparr>"
  for reason

subsection \<open>Market guard\<close>

record market_guard =
  mg_ok :: bool
  mg_spread_pct :: "real option"
  mg_max_spread_pct :: real
  mg_size_to_vol1m_pct :: "real option"
  mg_max_size_to_vol1m_pct :: real
  mg_vol1m :: "real option"
  mg_reasons :: "string list"

definition liq_of :: "state \<Rightarrow> string \<Rightarrow> liq" where
  "liq_of s a = (case exec_liq_cache s a of None \<Rightarrow> empty_liq | Some c \<Rightarrow> c)"

definition micro_of :: "state \<Rightarrow> string \<Rightarrow> micro" where
  "micro_of s a = (case micro_cache s a of None \<Rightarrow> empty_micro | Some c \<Rightarrow> c)"

definition vol_of :: "state \<Rightarrow> string \<Rightarrow> vol" where
  "vol_of s a = (case vol_cache s a of None \<Rightarrow> empty_vol | Some c \<Rightarrow> c)"

definition evaluate_market_guard :: "config \<Rightarrow> state \<Rightarrow> string \<Rightarrow> real \<Rightarrow> market_guard" where
  "evaluate_market_guard cfg s asset size =
     (let cache = liq_of s asset;
          spread_pct = spread_pct cache;
          mid = mid cache;
          volume_1m = volume_1m cache;
          order_size = \<bar>size\<bar>;
          max_spread = or_default (EXEC_MARKET_GUARD_MAX_SPREAD_PCT cfg) 0.35;
          max_size_to_vol_pct = or_default (EXEC_MARKET_GUARD_MAX_SIZE_TO_VOL1M_PCT cfg) 0.5;
          reasons1 =
            (case (spread_pct, mid) of
               (Some sp, Some m) \<Rightarrow>
                 (if m \<le> 0 then [''spread_unavailable'']
                  else if max_spread < sp then [''spread>'' @ fmt_fixed 2 max_spread @ ''%'']
                  else [])
             | _ \<Rightarrow> [''spread_unavailable'']);
          size_to_vol_pct =
            (case volume_1m of
               None \<Rightarrow> None
             | Some v \<Rightarrow> (if v \<le> 0 then None else Some (order_size / max v (1 / 10 ^ 12) * 100)));
          reasons2 =
            (case size_to_vol_pct of
               None \<Rightarrow> [''vol1m_unavailable'']
             | Some r \<Rightarrow>
                 (if max_size_to_vol_pct < r
                  then [''size_to_vol1m>'' @ fmt_fixed 2 max_size_to_vol_pct @ ''%'']
                  else []));
          reasons = reasons1 @ reasons2
      in \<lparr>mg_ok = (reasons = []),
          mg_spread_pct = map_option (round_to 6) spread_pct,
          mg_max_spread_pct = max_spread,
          mg_size_to_vol1m_pct = map_option (round_to 6) size_to_vol_pct,
          mg_max_size_to_vol1m_pct = max_size_to_vol_pct,
          mg_vol1m = map_option (round_to 8) volume_1m,
          mg_reasons = reasons\<rparr>)"
  for asset size

subsection \<open>Execution micro-gate\<close>

record micro_metrics =
  m_spread_pct :: "real option"
  m_hard_spread_cap_pct :: real
  m_bid_depth_usd :: "real option"
  m_ask_depth_usd :: "real option"
  m_total_depth_usd :: "real option"
  m_min_depth_usd :: real
  m_ob_imbalance :: "real option"
  m_tape_delta_pct :: "real option"
  m_tape_delta_usd :: "real option"
  m_tape_large_trades :: "int option"
  m_tape_source :: "string option"
  m_cache_ts :: "time option"
  m_cache_age_sec :: "real option"

record exec_gate =
  g_ok :: bool
  hard_reasons :: "string list"
  soft_penalty_conviction :: int
  soft_notes :: "string list"
  metrics :: micro_metrics

text \<open>The conviction penalty of the order book and of the tape, for the side of the order,
  with the note that goes with it.\<close>

definition soft_book :: "string \<Rightarrow> real option \<Rightarrow> int \<times> string list" where
  "soft_book side ob_imbalance =
     (case ob_imbalance of
        None \<Rightarrow> (0, [])
      | Some ob \<Rightarrow>
          (if side = ''BUY''
           then (if ob < 0.45 then (20, [''ob_imbalance_strongly_bearish''])
                 else if ob < 0.50 then (10, [''ob_imbalance_bearish''])
                 else (0, []))
           else if side = ''SELL''
           then (if 0.55 < ob then (20, [''ob_imbalance_strongly_bullish''])
                 else if 0.50 < ob then (10, [''ob_imbalance_bullish''])
                 else (0, []))
           else (0, [])))"
  for side ob_imbalance

definition soft_tape :: "string \<Rightarrow> real option \<Rightarrow> int \<times> string list" where
  "soft_tape side tape_delta_pct =
     (case tape_delta_pct of
        None \<Rightarrow> (0, [])
      | Some td \<Rightarrow>
          (if side = ''BUY''
           then (if td < - 10 then (20, [''tape_strong_sell''])
                 else if td < 0 then (10, [''tape_sell''])
                 else (0, []))
           else if side = ''SELL''
           then (if 10 < td then (20, [''tape_strong_buy''])
                 else if 0 < td then (10, [''tape_buy''])
                 else (0, []))
           else (0, [])))"
  for side tape_delta_pct

definition execution_micro_gate ::
  "config \<Rightarrow> time \<Rightarrow> state \<Rightarrow> string \<Rightarrow> string \<Rightarrow> real \<Rightarrow> real \<Rightarrow> exec_gate" where
  "execution_micro_gate cfg now s asset side size price =
     (let cache = liq_of s asset;
          micro = micro_of s asset;
          spread_pct = spread_pct cache;
          notional = \<bar>size\<bar> * price;
          base_spread_cap = or_default (EXEC_MARKET_GUARD_MAX_SPREAD_PCT cfg) 0.35;
          hard_spread_cap = max 0.80 (base_spread_cap * 2.5);
          hard1 =
            (case spread_pct of
               Some sp \<Rightarrow>
                 (if hard_spread_cap < sp then [''spread>'' @ fmt_fixed 2 hard_spread_cap @ ''%'']
                  else [])
             | None \<Rightarrow> []);
          bid_depth = bid_depth_usd micro;
          ask_depth = ask_depth_usd micro;
          total_depth =
            (if bid_depth \<noteq> None \<or> ask_depth \<noteq> None
             then Some (opt_or_zero bid_depth + opt_or_zero ask_depth)
             else None);
          min_depth = max 10000 (notional * 1.2);
          hard2 =
            (case total_depth of
               Some td \<Rightarrow>
                 (if 0 < td \<and> td < min_depth then [''depth<'' @ fmt_fixed 0 min_depth] else [])
             | None \<Rightarrow> []);
          hard_reasons = hard1 @ hard2;
          ob_imbalance = ob_imbalance micro;
          tape_delta_pct = tape_delta_pct micro;
          side = py_upper side;
          book = soft_book side ob_imbalance;
          tape = soft_tape side tape_delta_pct;
          soft_penalty = max 0 (min 40 (fst book + fst tape));
          soft_notes = snd book @ snd tape
      in \<lparr>g_ok = (hard_reasons = []),
          hard_reasons = hard_reasons,
          soft_penalty_conviction = soft_penalty,
          soft_notes = take 6 soft_notes,
          metrics =
            \<lparr>m_spread_pct = map_option (round_to 6) spread_pct,
             m_hard_spread_cap_pct = hard_spread_cap,
             m_bid_depth_usd = map_option (round_to 2) bid_depth,
             m_ask_depth_usd = map_option (round_to 2) ask_depth,
             m_total_depth_usd = map_option (round_to 2) total_depth,
             m_min_depth_usd = round_to 2 min_depth,
             m_ob_imbalance = map_option (round_to 4) ob_imbalance,
             m_tape_delta_pct = map_option (round_to 2) tape_delta_pct,
             m_tape_delta_usd = tape_delta_usd micro,
             m_tape_large_trades = tape_large_trades micro,
             m_tape_source = tape_source micro,
             m_cache_ts = micro_ts micro,
             m_cache_age_sec =
               map_option (\<lambda>t. round_to 3 (max 0 (of_int (now - t)))) (micro_ts micro)\<rparr>\<rparr>)"
  for asset side size price

subsection \<open>Order router\<close>

record order_result =
  r_ok :: bool
  r_path :: string
  r_reason :: string
  r_limit_price :: "real option"

text \<open>One call to the client: its answer, and the list of calls with this one added.\<close>

definition call_client ::
  "client \<Rightarrow> order_call \<Rightarrow> order_call list \<Rightarrow> exn option \<times> order_call list" where
  "call_client cl c calls = (cl (length calls) c, calls @ [c])"

definition failed_result :: "string list \<Rightarrow> order_result" where
  "failed_result errors =
     \<lparr>r_ok = False, r_path = ''failed'',
      r_reason = (if errors \<noteq> [] then py_last 400 (join ''; '' errors)
                  else ''order_path_exhausted''),
      r_limit_price = None\<rparr>"

text \<open>The market stage of \<^verbatim>\<open>_submit_live_order\<close>: the guard, the retry as an IOC limit order
  when the guard fails, the market order (a second time with positional arguments after a
  \<^verbatim>\<open>TypeError\<close>) when it passes.\<close>

definition submit_market ::
  "config \<Rightarrow> client \<Rightarrow> state \<Rightarrow> string \<Rightarrow> string \<Rightarrow> real \<Rightarrow> real option \<Rightarrow>
   string option \<Rightarrow> string list \<Rightarrow> order_call list \<Rightarrow> order_result \<times> order_call list" where
  "submit_market cfg cl s asset side size reference_price leverage_text errors calls =
     (if EXEC_MARKET_FALLBACK_ENABLED cfg then
        (let guard = evaluate_market_guard cfg s asset size;
             base_size = format_base_size size
         in if \<not> mg_ok guard then
              (let reason = join '', ''
                     (if mg_reasons guard \<noteq> [] then mg_reasons guard
                      else [''market_guard_failed'']);
                   errors1 = errors @ [''market_guard:'' @ reason];
                   retry_px = exec_limit_price reference_price side
                     (EXEC_MARKET_GUARD_RETRY_IOC_SLIPPAGE_PCT cfg) False
               in if EXEC_MARKET_GUARD_LIMIT_RETRY_ENABLED cfg \<and> 0 < retry_px then
                    (case call_client cl
                            (Limit_order_ioc asset side base_size (format_limit_price retry_px)
                               leverage_text) calls of
                       (None, calls1) \<Rightarrow>
                         (\<lparr>r_ok = True, r_path = ''limit_retry_ioc'',
                           r_reason = ''market_guard_reject:'' @ reason,
                           r_limit_price = Some retry_px\<rparr>, calls1)
                     | (Some exc, calls1) \<Rightarrow>
                         (\<lparr>r_ok = False, r_path = ''rejected'',
                           r_reason = py_last 400 (join ''; ''
                              (errors1 @ [''limit_retry_ioc:'' @ exn_text exc])),
                           r_limit_price = None\<rparr>, calls1))
                  else
                    (\<lparr>r_ok = False, r_path = ''rejected'',
                      r_reason = py_last 400 (join ''; '' errors1),
                      r_limit_price = None\<rparr>, calls))
            else
              (case call_client cl (Market_order asset side base_size leverage_text) calls of
                 (None, calls1) \<Rightarrow>
                   (\<lparr>r_ok = True, r_path = ''market'', r_reason = ''ok'',
                     r_limit_price = None\<rparr>, calls1)
               | (Some (TypeError m), calls1) \<Rightarrow>
                   (case call_client cl (Market_order_positional asset side size) calls1 of
                      (None, calls2) \<Rightarrow>
                        (\<lparr>r_ok = True, r_path = ''market'', r_reason = ''ok'',
                          r_limit_price = None\<rparr>, calls2)
                    | (Some exc, calls2) \<Rightarrow>
                        (failed_result (errors @ [''market:'' @ exn_text exc]), calls2))
               | (Some exc, calls1) \<Rightarrow>
                   (failed_result (errors @ [''market:'' @ exn_text exc]), calls1)))
      else (failed_result errors, calls))"
  for asset side size

definition submit_ioc ::
  "config \<Rightarrow> client \<Rightarrow> state \<Rightarrow> string \<Rightarrow> string \<Rightarrow> real \<Rightarrow> real option \<Rightarrow>
   string option \<Rightarrow> string list \<Rightarrow> order_call list \<Rightarrow> order_result \<times> order_call list" where
  "submit_ioc cfg cl s asset side size reference_price leverage_text errors calls =
     (let ioc_px = exec_limit_price reference_price side (EXEC_IOC_SLIPPAGE_PCT cfg) False
      in if EXEC_IOC_FALLBACK_ENABLED cfg \<and> 0 < ioc_px then
           (case call_client cl
                   (Limit_order_ioc asset side (format_base_size size) (format_limit_price ioc_px)
                      leverage_text) calls of
              (None, calls1) \<Rightarrow>
                (\<lparr>r_ok = True, r_path = ''ioc'', r_reason = ''ok'',
                  r_limit_price = Some ioc_px\<rparr>, calls1)
            | (Some exc, calls1) \<Rightarrow>
                submit_market cfg cl s asset side size reference_price leverage_text
                  (errors @ [''ioc:'' @ exn_text exc]) calls1)
         else submit_market cfg cl s asset side size reference_price leverage_text errors calls)"
  for asset side size

definition submit_post_only ::
  "config \<Rightarrow> client \<Rightarrow> state \<Rightarrow> string \<Rightarrow> string \<Rightarrow> real \<Rightarrow> real option \<Rightarrow>
   string option \<Rightarrow> order_call list \<Rightarrow> order_result \<times> order_call list" where
  "submit_post_only cfg cl s asset side size reference_price leverage_text calls =
     (let post_only_px =
            exec_limit_price reference_price side (EXEC_POST_ONLY_OFFSET_PCT cfg) True
      in if EXEC_POST_ONLY_ENABLED cfg \<and> 0 < post_only_px then
           (case call_client cl
                   (Limit_order_gtc asset side (format_base_size size)
                      (format_limit_price post_only_px) True leverage_text) calls of
              (None, calls1) \<Rightarrow>
                (\<lparr>r_ok = True, r_path = ''post_only'', r_reason = ''ok'',
                  r_limit_price = Some post_only_px\<rparr>, calls1)
            | (Some exc, calls1) \<Rightarrow>
                submit_ioc cfg cl s asset side size reference_price leverage_text
                  [''post_only:'' @ exn_text exc] calls1)
         else submit_ioc cfg cl s asset side size reference_price leverage_text [] calls)"
  for asset side size

text \<open>\<^verbatim>\<open>_submit_live_order\<close>. The result comes with the state in which the calls made are
  logged.\<close>

definition submit_live_order ::
  "config \<Rightarrow> client option \<Rightarrow> state \<Rightarrow> string \<Rightarrow> string \<Rightarrow> real \<Rightarrow> real option \<Rightarrow>
   int option \<Rightarrow> order_result \<times> state" where
  "submit_live_order cfg client s asset side size reference_price leverage =
     (case client of
        None \<Rightarrow>
          (\<lparr>r_ok = False, r_path = ''none'', r_reason = ''client_unavailable'',
            r_limit_price = None\<rparr>, s)
      | Some cl \<Rightarrow>
          (let leverage_text = map_option show_int leverage;
               res = submit_post_only cfg cl s asset side size reference_price leverage_text
                       (orders s)
           in (fst res, s\<lparr>orders := snd res\<rparr>)))"
  for asset side size leverage

section \<open>TradeLedger (\<^verbatim>\<open>trade.py\<close>)\<close>

text \<open>
  What an operation takes from outside the program: the clock, the exchange client
  (\<open>None\<close> when \<^verbatim>\<open>config.client\<close> is \<^verbatim>\<open>None\<close>) and the next random identifier. The clock does
  not advance within one operation.
\<close>

record env =
  e_now :: time
  e_client :: "client option"
  e_uuid :: string

subsection \<open>The live trades and the durable tables\<close>

definition get_trade :: "state \<Rightarrow> string \<Rightarrow> trade option" where
  "get_trade s trade_id = map_of (trades s) trade_id"

text \<open>A write to a trade's fields: the trade keeps its place in \<^verbatim>\<open>state["trades"]\<close>, a new
  one goes to the end.\<close>

definition put_trade :: "string \<Rightarrow> trade \<Rightarrow> state \<Rightarrow> state" where
  "put_trade trade_id t s = s\<lparr>trades := AList.update trade_id t (trades s)\<rparr>"

definition save_live_trade :: "string \<Rightarrow> trade \<Rightarrow> state \<Rightarrow> state" where
  "save_live_trade trade_id t s = s\<lparr>db_live_trades := (db_live_trades s)(trade_id \<mapsto> t)\<rparr>"

definition delete_live_trade :: "string \<Rightarrow> state \<Rightarrow> state" where
  "delete_live_trade trade_id s = s\<lparr>db_live_trades := (db_live_trades s)(trade_id := None)\<rparr>"

definition save_trade_journal :: "string \<Rightarrow> journal_row \<Rightarrow> state \<Rightarrow> state" where
  "save_trade_journal trade_id row s = s\<lparr>db_trades := (db_trades s)(trade_id \<mapsto> row)\<rparr>"

definition emit_trade_event ::
  "time \<Rightarrow> string \<Rightarrow> string option \<Rightarrow> string option \<Rightarrow> string option \<Rightarrow>
   (string \<times> pv) list \<Rightarrow> state \<Rightarrow> state" where
  "emit_trade_event now event_type decision_id trade_id asset payload s =
     s\<lparr>db_trade_events := db_trade_events s @
         [\<lparr>ev_ts = now, ev_type = event_type, ev_decision_id = decision_id,
           ev_trade_id = trade_id, ev_asset = asset, ev_payload = payload\<rparr>]\<rparr>"
  for decision_id asset

definition pv_opt_real :: "real option \<Rightarrow> pv" where
  "pv_opt_real x = (case x of None \<Rightarrow> PNone | Some v \<Rightarrow> PReal v)"

definition pv_opt_int :: "int option \<Rightarrow> pv" where
  "pv_opt_int x = (case x of None \<Rightarrow> PNone | Some v \<Rightarrow> PInt v)"

definition pv_opt_str :: "string option \<Rightarrow> pv" where
  "pv_opt_str x = (case x of None \<Rightarrow> PNone | Some v \<Rightarrow> PStr v)"

subsection \<open>Simulation accounting\<close>

definition estimate_realized_pnl :: "string \<Rightarrow> real \<Rightarrow> real \<Rightarrow> real \<Rightarrow> real" where
  "estimate_realized_pnl open_side entry exit_price size =
     (if open_side = ''BUY'' then (exit_price - entry) * size else (entry - exit_price) * size)"
  for entry size

definition clamp :: "real \<Rightarrow> real \<Rightarrow> real \<Rightarrow> real" where
  "clamp v low high = max low (min high v)"

definition sim_slippage_pct :: "config \<Rightarrow> state \<Rightarrow> string \<Rightarrow> real \<Rightarrow> int \<Rightarrow> real" where
  "sim_slippage_pct cfg s asset reference_price pump_score =
     (let min_pct = SIM_SLIPPAGE_MIN_PCT cfg;
          max_pct0 = or_default (SIM_SLIPPAGE_MAX_PCT cfg) min_pct;
          max_pct = (if max_pct0 < min_pct then min_pct else max_pct0);
          atr_value = (if 60 \<le> pump_score then atr_1h (vol_of s asset)
                       else atr_6h (vol_of s asset));
          scaled =
            (case atr_value of
               Some a \<Rightarrow>
                 (if 0 < reference_price
                  then min_pct + (a / reference_price * 100) * SIM_SLIPPAGE_ATR_MULT cfg
                  else (min_pct + max_pct) / 2)
             | None \<Rightarrow> (min_pct + max_pct) / 2)
      in clamp scaled min_pct max_pct)"
  for asset pump_score

definition apply_slippage_to_price :: "real \<Rightarrow> string \<Rightarrow> real \<Rightarrow> real" where
  "apply_slippage_to_price reference_price side slippage_pct =
     (let slip = max 0 slippage_pct / 100
      in if side = ''BUY'' then reference_price * (1 + slip) else reference_price * (1 - slip))"
  for side

definition estimate_taker_fee :: "config \<Rightarrow> real \<Rightarrow> real \<Rightarrow> real" where
  "estimate_taker_fee cfg fill_price size = \<bar>fill_price * size\<bar> * SIM_TAKER_FEE_RATE cfg"
  for size

text \<open>\<^verbatim>\<open>_estimate_funding_drag\<close> returns the cost and moves the trade's
  \<^verbatim>\<open>funding_last_ts\<close>; the trade comes back with the cost. The last funding time is
  \<^verbatim>\<open>funding_last_ts\<close>, else the opening time; with neither the text does not parse.\<close>

definition estimate_funding_drag ::
  "config \<Rightarrow> time \<Rightarrow> trade \<Rightarrow> real \<Rightarrow> real \<Rightarrow> real \<times> trade" where
  "estimate_funding_drag cfg now t mark_price size =
     (if \<not> SIMULATION_MODE cfg then (0, t)
      else
        (let rate_per_8h = SIM_FUNDING_RATE_PER_8H cfg
         in if rate_per_8h \<le> 0 then (0, t)
            else
              (case (case funding_last_ts t of Some l \<Rightarrow> Some l | None \<Rightarrow> trade_ts t) of
                 None \<Rightarrow> (0, t\<lparr>funding_last_ts := Some now\<rparr>)
               | Some last_ts \<Rightarrow>
                   (let elapsed_hours = max 0 (of_int (now - last_ts) / 3600)
                    in if elapsed_hours \<le> 0 then (0, t)
                       else
                         (let notional = \<bar>size * mark_price\<bar>
                          in if notional \<le> 0 then (0, t\<lparr>funding_last_ts := Some now\<rparr>)
                             else (max 0 (notional * rate_per_8h * (elapsed_hours / 8)),
                                   t\<lparr>funding_last_ts := Some now\<rparr>))))))"
  for size

definition apply_sim_realized_pnl :: "config \<Rightarrow> real \<Rightarrow> state \<Rightarrow> state" where
  "apply_sim_realized_pnl cfg delta s =
     (if \<not> SIMULATION_MODE cfg then s
      else
        (let pnl = sim_realized_pnl s + delta;
             base_equity = (case sim_base_equity s of Some b \<Rightarrow> b | None \<Rightarrow> equity s);
             eq = max 0 (base_equity + pnl);
             s1 = s\<lparr>sim_realized_pnl := pnl, equity := eq\<rparr>
         in if mode s1 = ''nuclear'' then s1\<lparr>aggr_target := eq, safe_target := 0\<rparr> else s1))"

subsection \<open>Closing size on the exchange\<close>

text \<open>\<^verbatim>\<open>_close_size\<close>: whether the close order went through, and the state in which the
  outcome (and the calls made) are recorded.\<close>

definition close_size :: "config \<Rightarrow> env \<Rightarrow> state \<Rightarrow> string \<Rightarrow> string \<Rightarrow> real \<Rightarrow> bool \<times> state" where
  "close_size cfg ev s asset open_side size =
     (if DRY_RUN_ORDERS cfg
      then (True, record_execution_result (e_now ev) True ''dry_run'' ''simulated'' s)
      else if e_client ev = None
      then (False, record_execution_result (e_now ev) False ''none'' ''client_unavailable'' s)
      else if size \<le> 0
      then (False, record_execution_result (e_now ev) False ''none'' ''invalid_size'' s)
      else
        (let res = submit_live_order cfg (e_client ev) s asset (close_side_from_open open_side)
                     size (price s asset) None;
             s1 = record_execution_result (e_now ev) (r_ok (fst res)) (r_path (fst res))
                    (r_reason (fst res)) (snd res)
         in (r_ok (fst res), s1)))"
  for asset size

subsection \<open>Realising profit and loss\<close>

text \<open>
  The accounting block that \<^verbatim>\<open>_close_trade_partial\<close> and \<^verbatim>\<open>_close_trade_full\<close> both run
  after a close order for \<open>size\<close> went through: the execution price (with simulated slippage),
  gross profit, fee and funding cost of the closed size, the net of the three, and the trade
  with the four running totals raised by them.
\<close>

record fill =
  f_market_price :: real
  f_slippage_pct :: real
  f_exec_price :: real
  f_gross :: real
  f_fee :: real
  f_funding :: real
  f_net :: real
  f_trade :: trade

definition realize :: "config \<Rightarrow> time \<Rightarrow> state \<Rightarrow> trade \<Rightarrow> real \<Rightarrow> fill" where
  "realize cfg now s t size =
     (let market_price = (case price s (asset t) of Some p \<Rightarrow> p | None \<Rightarrow> entry t);
          close_side = close_side_from_open (side t);
          slippage_pct =
            (if SIMULATION_MODE cfg
             then sim_slippage_pct cfg s (asset t) market_price (pump_score t) else 0);
          exec_price =
            (if SIMULATION_MODE cfg
             then apply_slippage_to_price market_price close_side slippage_pct
             else market_price);
          gross_realized = estimate_realized_pnl (side t) (entry t) exec_price size;
          fee_cost = (if SIMULATION_MODE cfg then estimate_taker_fee cfg exec_price size else 0);
          fd = estimate_funding_drag cfg now t market_price size;
          funding_cost = fst fd;
          net_realized = gross_realized - fee_cost - funding_cost
      in \<lparr>f_market_price = market_price, f_slippage_pct = slippage_pct,
          f_exec_price = exec_price, f_gross = gross_realized, f_fee = fee_cost,
          f_funding = funding_cost, f_net = net_realized,
          f_trade = (snd fd)
            \<lparr>realized_gross_pnl := realized_gross_pnl (snd fd) + gross_realized,
             realized_fees := realized_fees (snd fd) + fee_cost,
             realized_funding := realized_funding (snd fd) + funding_cost,
             realized_pnl := realized_pnl (snd fd) + net_realized\<rparr>\<rparr>)"
  for size

subsection \<open>Partial close\<close>

definition close_trade_partial ::
  "config \<Rightarrow> env \<Rightarrow> string \<Rightarrow> real \<Rightarrow> string \<Rightarrow> state \<Rightarrow> bool \<times> state" where
  "close_trade_partial cfg ev trade_id fraction reason s =
     (case get_trade s trade_id of
        None \<Rightarrow> (False, s)
      | Some t \<Rightarrow>
          if status t \<noteq> Open then (False, s)
          else
            (let csize = min (round8 (initial_size t * fraction)) (remaining_size t)
             in if csize \<le> 0 then (False, s)
                else
                  (let cs = close_size cfg ev s (asset t) (side t) csize
                   in if \<not> fst cs then (False, snd cs)
                      else
                        (let f = realize cfg (e_now ev) (snd cs) t csize;
                             s2 = apply_sim_realized_pnl cfg (f_net f) (snd cs);
                             t2 = (f_trade f)\<lparr>remaining_size := round8 (remaining_size t - csize)\<rparr>;
                             s3 = save_live_trade trade_id t2 (put_trade trade_id t2 s2)
                         in (True,
                             emit_trade_event (e_now ev) ''partial_close'' (decision_id t2)
                               (Some trade_id) (Some (asset t2))
                               [(''reason'', PStr reason),
                                (''close_size'', PReal csize),
                                (''remaining_size'', PReal (remaining_size t2)),
                                (''gross_pnl'', PReal (f_gross f)),
                                (''fee_cost'', PReal (f_fee f)),
                                (''funding_cost'', PReal (f_funding f)),
                                (''net_pnl'', PReal (f_net f))] s3)))))"
  for reason

subsection \<open>Placing an order that adds size\<close>

text \<open>
  The order block that \<^verbatim>\<open>execute\<close> and \<^verbatim>\<open>_try_pyramid_add\<close> both have, differing in two
  texts only (the reason recorded for a dry run, and the message of the \<^verbatim>\<open>RuntimeError\<close> raised
  for a failed order without a reason, which is caught on the spot and reported to the health
  monitor): the path taken, or \<open>None\<close> when the caller is to give up.
\<close>

definition place_order ::
  "config \<Rightarrow> env \<Rightarrow> state \<Rightarrow> string \<Rightarrow> string \<Rightarrow> real \<Rightarrow> real \<Rightarrow> int option \<Rightarrow>
   string \<Rightarrow> string \<Rightarrow> string option \<times> state" where
  "place_order cfg ev s asset side size price leverage dry_text fail_text =
     (if DRY_RUN_ORDERS cfg
      then (Some ''dry_run'', record_execution_result (e_now ev) True ''dry_run'' dry_text s)
      else if e_client ev = None
      then (None, record_execution_result (e_now ev) False ''none'' ''client_unavailable'' s)
      else
        (let res = submit_live_order cfg (e_client ev) s asset side size (Some price) leverage
         in if \<not> r_ok (fst res)
            then
              (let msg = (if r_reason (fst res) = [] then fail_text else r_reason (fst res));
                   s1 = (snd res)\<lparr>health := mark_exchange_failure cfg (e_now ev)
                          ''order_open'' (Some msg) (health (snd res))\<rparr>
               in (None, record_execution_result (e_now ev) False ''failed'' msg s1))
            else
              (let s1 = (snd res)\<lparr>health := mark_exchange_success cfg (e_now ev)
                          ''order_open'' (health (snd res))\<rparr>
               in (Some (if r_path (fst res) = [] then ''unknown'' else r_path (fst res)),
                   record_execution_result (e_now ev) True (r_path (fst res))
                     (r_reason (fst res)) s1))))"
  for asset side size price leverage

subsection \<open>Pyramid add\<close>

definition sanitize_conviction :: "int \<Rightarrow> int" where
  "sanitize_conviction v = max 0 (min 100 v)"

definition is_perp :: "string \<Rightarrow> bool" where
  "is_perp a = endswith a ''-PERP-INTX''"

text \<open>\<^verbatim>\<open>x or y or z or 0.0\<close> on numbers: the first that is not zero.\<close>

definition first_nonzero :: "real list \<Rightarrow> real" where
  "first_nonzero xs = (case filter (\<lambda>x. x \<noteq> 0) xs of [] \<Rightarrow> 0 | x # _ \<Rightarrow> x)"

text \<open>The last part of \<^verbatim>\<open>_try_pyramid_add\<close>, once the order for \<open>add_size\<close> is placed: the
  trade grows by it, is saved, and the audit event is written.\<close>

definition pyramid_book ::
  "env \<Rightarrow> string \<Rightarrow> trade \<Rightarrow> real \<Rightarrow> real option \<Rightarrow> int \<Rightarrow> string \<Rightarrow> string \<Rightarrow>
   real option \<Rightarrow> real \<Rightarrow> state \<Rightarrow> state" where
  "pyramid_book ev trade_id t add_size rr_now conv trigger path exposure_after_pct
     max_exposure_pct s =
     (let t2 = t\<lparr>trade_size := round8 (trade_size t + add_size),
                  remaining_size := round8 (remaining_size t + add_size),
                  pyramid_add_count := pyramid_add_count t + 1,
                  pyramid_last_rr := rr_now,
                  pyramid_last_ts := Some (e_now ev)\<rparr>;
          s3 = save_live_trade trade_id t2 (put_trade trade_id t2 s)
      in emit_trade_event (e_now ev) ''trade_pyramided'' (decision_id t2) (Some trade_id)
           (Some (asset t2))
           [(''add_size'', PReal add_size),
            (''add_count'', PInt (pyramid_add_count t2)),
            (''rr_now'', pv_opt_real rr_now),
            (''conviction'', PInt conv),
            (''trigger'', PStr (take 60 (strip (if trigger = [] then ''rr'' else trigger)))),
            (''execution_path'', PStr path),
            (''exposure_after_pct'', pv_opt_real (map_option (round_to 6) exposure_after_pct)),
            (''max_exposure_pct'', PReal (max_exposure_pct * 100))] s3)"

text \<open>The size of one add: the configured fraction of the trade's base size.\<close>

definition pyramid_add_size :: "config \<Rightarrow> trade \<Rightarrow> real" where
  "pyramid_add_size cfg t =
     (let base_size = first_nonzero [pyramid_base_size t, initial_size t, trade_size t];
          add_fraction = max 0 (or_default (PYRAMID_ADD_FRACTION cfg) 0.30)
      in round8 (base_size * add_fraction))"

definition pyramid_max_exposure_pct :: "config \<Rightarrow> real" where
  "pyramid_max_exposure_pct cfg = max 0.01 (or_default (PYRAMID_MAX_EXPOSURE_PCT cfg) 0.18)"

text \<open>The early returns of \<^verbatim>\<open>_try_pyramid_add\<close>, in their order: whether one of them is
  taken before any order is placed.\<close>

definition pyramid_refused :: "config \<Rightarrow> state \<Rightarrow> trade \<Rightarrow> real \<Rightarrow> real option \<Rightarrow> bool" where
  "pyramid_refused cfg s t current_price rr_now =
     (let add_count = pyramid_add_count t;
          max_adds = max 0 (if PYRAMID_MAX_ADDS cfg = 0 then 2 else PYRAMID_MAX_ADDS cfg);
          required_rr = or_default (PYRAMID_RR_TRIGGER cfg) 1.5 + 0.5 * of_int add_count;
          conv = sanitize_conviction (conviction t);
          min_conviction = sanitize_conviction (PYRAMID_MIN_CONVICTION cfg);
          add_size = pyramid_add_size cfg t;
          max_notional = equity s * pyramid_max_exposure_pct cfg;
          current_notional = max 0 (remaining_size t * current_price);
          add_notional = add_size * current_price;
          oside = py_upper (side t)
      in if \<not> PYRAMID_ENABLED cfg then True
         else if max_adds \<le> add_count then True
         else if (case rr_now of None \<Rightarrow> True | Some r \<Rightarrow> r < required_rr) then True
         else if conv < min_conviction then True
         else if current_price \<le> 0 then True
         else if add_size \<le> 0 then True
         else if 0 < max_notional \<and> max_notional < current_notional + add_notional then True
         else if oside \<noteq> ''BUY'' \<and> oside \<noteq> ''SELL'' then True
         else False)"

text \<open>
  \<^verbatim>\<open>_try_pyramid_add\<close>. The caller passes the trade it holds, which is the entry of
  \<^verbatim>\<open>state["trades"]\<close> under \<open>trade_id\<close>; here it is read from there.
\<close>

definition try_pyramid_add ::
  "config \<Rightarrow> env \<Rightarrow> string \<Rightarrow> real \<Rightarrow> real option \<Rightarrow> string \<Rightarrow> state \<Rightarrow> bool \<times> state" where
  "try_pyramid_add cfg ev trade_id current_price rr_now trigger s =
     (case get_trade s trade_id of
        None \<Rightarrow> (False, s)
      | Some t \<Rightarrow>
          if pyramid_refused cfg s t current_price rr_now then (False, s)
          else
            (let add_size = pyramid_add_size cfg t;
                 current_notional = max 0 (remaining_size t * current_price);
                 add_notional = add_size * current_price;
                 placed = place_order cfg ev s (asset t) (py_upper (side t)) add_size
                            current_price
                            (if is_perp (asset t) then Some (leverage t) else None)
                            ''simulated_pyramid'' ''pyramid_order_failed''
             in case fst placed of
                  None \<Rightarrow> (False, snd placed)
                | Some path \<Rightarrow>
                    (True,
                     pyramid_book ev trade_id t add_size rr_now
                       (sanitize_conviction (conviction t)) trigger path
                       (if 0 < equity s
                        then Some ((current_notional + add_notional)
                                     / max (equity s) (1 / 10 ^ 12) * 100)
                        else None)
                       (pyramid_max_exposure_pct cfg) (snd placed))))"

subsection \<open>Full close\<close>

definition reason_event_map :: "string \<Rightarrow> string option" where
  "reason_event_map r =
     (if r = ''stop'' then Some ''stop_hit''
      else if r = ''take_profit'' then Some ''tp_hit''
      else if r = ''pump_timer'' then Some ''timer_exit''
      else if r = ''pump_timer_recovery'' then Some ''timer_exit''
      else None)"

text \<open>The journal row and the \<open>close_settled\<close> event of a trade that has just been closed.\<close>

definition journal_of :: "trade \<Rightarrow> real \<Rightarrow> string \<Rightarrow> journal_row" where
  "journal_of t exit_price reason =
     \<lparr>j_ts = closed_ts t, j_asset = asset t, j_side = side t, j_size = initial_size t,
      j_entry = entry t, j_exit = exit_price, j_pnl = realized_pnl t,
      j_pnl_gross = realized_gross_pnl t, j_fee_cost = realized_fees t,
      j_funding_cost = realized_funding t, j_reason = reason\<rparr>"
  for reason

definition close_settled_payload :: "trade \<Rightarrow> real \<Rightarrow> string \<Rightarrow> (string \<times> pv) list" where
  "close_settled_payload t exit_price reason =
     [(''reason'', PStr reason),
      (''entry'', PReal (entry t)),
      (''exit'', PReal exit_price),
      (''size'', PReal (initial_size t)),
      (''gross_pnl'', PReal (realized_gross_pnl t)),
      (''fee_cost'', PReal (realized_fees t)),
      (''funding_cost'', PReal (realized_funding t)),
      (''net_pnl'', PReal (realized_pnl t))]"
  for reason

definition close_trade_full ::
  "config \<Rightarrow> env \<Rightarrow> string \<Rightarrow> string \<Rightarrow> string option \<Rightarrow> state \<Rightarrow> state" where
  "close_trade_full cfg ev trade_id reason decision_id s =
     (case get_trade s trade_id of
        None \<Rightarrow> s
      | Some t \<Rightarrow>
          if status t \<noteq> Open then s
          else
            (let decision_id = (case decision_id of None \<Rightarrow> trade.decision_id t | Some d \<Rightarrow> Some d);
                 remaining = remaining_size t;
                 market_price = (case price s (asset t) of Some p \<Rightarrow> p | None \<Rightarrow> entry t);
                 cs = (if 0 < remaining then close_size cfg ev s (asset t) (side t) remaining
                       else (False, s));
                 f = realize cfg (e_now ev) (snd cs) t remaining;
                 journal_exit_price = (if fst cs then f_exec_price f else market_price);
                 t1 = (if fst cs then (f_trade f)\<lparr>remaining_size := 0\<rparr> else t);
                 s1 = (if fst cs then apply_sim_realized_pnl cfg (f_net f) (snd cs) else snd cs);
                 t2 = t1\<lparr>status := Closed, closed_ts := Some (e_now ev),
                         close_reason := Some reason\<rparr>;
                 s2 = put_trade trade_id t2 s1;
                 s3 = (case reason_event_map reason of
                         None \<Rightarrow> s2
                       | Some reason_event_type \<Rightarrow>
                           emit_trade_event (e_now ev) reason_event_type decision_id
                             (Some trade_id) (Some (asset t2))
                             [(''reason'', PStr reason), (''net_pnl'', PReal (realized_pnl t2))]
                             s2);
                 s4 = save_trade_journal trade_id (journal_of t2 journal_exit_price reason) s3;
                 s5 = emit_trade_event (e_now ev) ''close_settled'' decision_id (Some trade_id)
                        (Some (asset t2)) (close_settled_payload t2 journal_exit_price reason) s4
             in delete_live_trade trade_id s5))"
  for reason decision_id

subsection \<open>Monitoring an open trade\<close>

definition is_stop_hit :: "string \<Rightarrow> real option \<Rightarrow> real \<Rightarrow> bool" where
  "is_stop_hit side stop current_price =
     (case stop of
        None \<Rightarrow> False
      | Some st \<Rightarrow> (if side = ''BUY'' then current_price \<le> st else st \<le> current_price))"
  for side stop

definition is_take_profit_hit :: "string \<Rightarrow> real option \<Rightarrow> real \<Rightarrow> bool" where
  "is_take_profit_hit side take_profit current_price =
     (case take_profit of
        None \<Rightarrow> False
      | Some tp \<Rightarrow> (if side = ''BUY'' then tp \<le> current_price else current_price \<le> tp))"
  for side take_profit

definition update_trailing_stop :: "trade \<Rightarrow> real \<Rightarrow> trade" where
  "update_trailing_stop t current_price =
     (case trailing_pct t of
        None \<Rightarrow> t
      | Some tpct \<Rightarrow>
          (let trailing_ratio = tpct / 100;
               best0 = (case best_price t of None \<Rightarrow> current_price | Some b \<Rightarrow> b)
           in if trailing_ratio \<le> 0 then t
              else if side t = ''BUY''
              then
                (let best = max best0 current_price;
                     trail_stop = best * (1 - trailing_ratio)
                 in t\<lparr>stop := Some (case stop t of Some st \<Rightarrow> max st trail_stop
                                      | None \<Rightarrow> trail_stop),
                      best_price := Some best\<rparr>)
              else
                (let best = min best0 current_price;
                     trail_stop = best * (1 + trailing_ratio)
                 in t\<lparr>stop := Some (case stop t of Some st \<Rightarrow> min st trail_stop
                                      | None \<Rightarrow> trail_stop),
                      best_price := Some best\<rparr>)))"

text \<open>A write to the fields of the trade under \<open>trade_id\<close>, if there is one.\<close>

definition upd_trade :: "string \<Rightarrow> (trade \<Rightarrow> trade) \<Rightarrow> state \<Rightarrow> state" where
  "upd_trade trade_id f s =
     (case get_trade s trade_id of None \<Rightarrow> s | Some t \<Rightarrow> put_trade trade_id (f t) s)"

text \<open>
  \<^verbatim>\<open>_process_open_trade\<close> in its five steps. The trade it is handed is the entry of
  \<^verbatim>\<open>state["trades"]\<close> under \<open>trade_id\<close>, so every step reads and writes it there.

  First the simulated funding drag since the last funding time.
\<close>

definition funding_tick :: "config \<Rightarrow> env \<Rightarrow> string \<Rightarrow> real \<Rightarrow> state \<Rightarrow> state" where
  "funding_tick cfg ev trade_id current_price s =
     (case get_trade s trade_id of
        None \<Rightarrow> s
      | Some t \<Rightarrow>
          if \<not> SIMULATION_MODE cfg then s
          else
            (let fd = estimate_funding_drag cfg (e_now ev) t current_price (remaining_size t);
                 funding_cost = fst fd
             in if 0 < funding_cost
                then apply_sim_realized_pnl cfg (- funding_cost)
                       (put_trade trade_id
                          ((snd fd)\<lparr>realized_funding := realized_funding (snd fd) + funding_cost,
                                    realized_pnl := realized_pnl (snd fd) - funding_cost\<rparr>) s)
                else put_trade trade_id (snd fd) s))"

text \<open>The trailing stop, once the favourable move has reached the activation percentage.\<close>

definition trailing_tick :: "string \<Rightarrow> real \<Rightarrow> state \<Rightarrow> state" where
  "trailing_tick trade_id current_price s =
     upd_trade trade_id
       (\<lambda>t. case trailing_activation_pct t of
               None \<Rightarrow> t
             | Some activation_pct \<Rightarrow>
                 if entry t = 0 then t
                 else
                   (let activation_ratio = activation_pct / 100;
                        move = (if side t = ''BUY'' then (current_price - entry t) / entry t
                                else (entry t - current_price) / entry t)
                    in if activation_ratio \<le> move then update_trailing_stop t current_price
                       else t)) s"

text \<open>The two partial closes, each behind its flag; the result says whether one fired.\<close>

definition partial_tick :: "config \<Rightarrow> env \<Rightarrow> string \<Rightarrow> real option \<Rightarrow> state \<Rightarrow> bool \<times> state" where
  "partial_tick cfg ev trade_id rr_now s =
     (let p15 =
            (case (get_trade s trade_id, rr_now) of
               (Some t, Some r) \<Rightarrow>
                 (if \<not> partial_15 t \<and> 1.5 \<le> r
                  then close_trade_partial cfg ev trade_id 0.50 ''1.5R'' s else (False, s))
             | _ \<Rightarrow> (False, s));
          s1 = (if fst p15 then upd_trade trade_id (\<lambda>t. t\<lparr>partial_15 := True\<rparr>) (snd p15)
                else snd p15);
          p30 =
            (case (get_trade s1 trade_id, rr_now) of
               (Some t, Some r) \<Rightarrow>
                 (if \<not> partial_30 t \<and> 3.0 \<le> r
                  then close_trade_partial cfg ev trade_id 0.30 ''3.0R'' s1 else (False, s1))
             | _ \<Rightarrow> (False, s1));
          s2 = (if fst p30 then upd_trade trade_id (\<lambda>t. t\<lparr>partial_30 := True\<rparr>) (snd p30)
                else snd p30)
      in (fst p15 \<or> fst p30, s2))"

text \<open>The pyramid add, tried whenever the ratio has reached the configured trigger.\<close>

definition pyramid_tick ::
  "config \<Rightarrow> env \<Rightarrow> string \<Rightarrow> real \<Rightarrow> real option \<Rightarrow> bool \<Rightarrow> state \<Rightarrow> state" where
  "pyramid_tick cfg ev trade_id current_price rr_now pyramiding_triggered s =
     (case rr_now of
        None \<Rightarrow> s
      | Some r \<Rightarrow>
          if or_default (PYRAMID_RR_TRIGGER cfg) 1.5 \<le> r
          then snd (try_pyramid_add cfg ev trade_id current_price rr_now
                      (if pyramiding_triggered then ''partial_close'' else ''rr_cross'') s)
          else s)"

text \<open>The exits: stop, take-profit, nothing left after the partial closes; otherwise the
  trade is saved.\<close>

definition exit_tick :: "config \<Rightarrow> env \<Rightarrow> string \<Rightarrow> real \<Rightarrow> state \<Rightarrow> state" where
  "exit_tick cfg ev trade_id current_price s =
     (case get_trade s trade_id of
        None \<Rightarrow> s
      | Some t \<Rightarrow>
          if is_stop_hit (side t) (stop t) current_price
          then close_trade_full cfg ev trade_id ''stop'' (decision_id t) s
          else if is_take_profit_hit (side t) (take_profit t) current_price
          then close_trade_full cfg ev trade_id ''take_profit'' (decision_id t) s
          else if remaining_size t \<le> 0
          then
            (let t2 = t\<lparr>status := Closed, closed_ts := Some (e_now ev),
                        close_reason := Some ''fully_partialed''\<rparr>;
                 exit_price = (case price s (asset t2) of Some p \<Rightarrow> p | None \<Rightarrow> entry t2);
                 s1 = put_trade trade_id t2 s;
                 s2 = save_trade_journal trade_id (journal_of t2 exit_price ''fully_partialed'') s1;
                 s3 = emit_trade_event (e_now ev) ''close_settled'' (decision_id t2)
                        (Some trade_id) (Some (asset t2))
                        (close_settled_payload t2 exit_price ''fully_partialed'') s2
             in delete_live_trade trade_id s3)
          else save_live_trade trade_id t s)"

definition process_open_trade :: "config \<Rightarrow> env \<Rightarrow> string \<Rightarrow> state \<Rightarrow> state" where
  "process_open_trade cfg ev trade_id s =
     (case get_trade s trade_id of
        None \<Rightarrow> s
      | Some t0 \<Rightarrow>
          (case price s (asset t0) of
             None \<Rightarrow> s
           | Some current_price \<Rightarrow>
               (let s1 = funding_tick cfg ev trade_id current_price s;
                    rr_now = calc_rr_now (side t0) (entry t0) (stop t0) current_price;
                    s2 = trailing_tick trade_id current_price s1;
                    p = partial_tick cfg ev trade_id rr_now s2;
                    s3 = pyramid_tick cfg ev trade_id current_price rr_now (fst p) (snd p)
                in exit_tick cfg ev trade_id current_price s3)))"

text \<open>One round of \<^verbatim>\<open>monitor_trades_loop\<close> over the trades there are when it starts, and
  \<^verbatim>\<open>force_close_all_open_trades\<close>.\<close>

fun monitor_ids :: "config \<Rightarrow> env \<Rightarrow> string list \<Rightarrow> state \<Rightarrow> state" where
  "monitor_ids cfg ev [] s = s"
| "monitor_ids cfg ev (trade_id # ids) s =
     monitor_ids cfg ev ids
       (case get_trade s trade_id of
          None \<Rightarrow> s
        | Some t \<Rightarrow> if status t \<noteq> Open then s else process_open_trade cfg ev trade_id s)"

definition monitor_tick :: "config \<Rightarrow> env \<Rightarrow> state \<Rightarrow> state" where
  "monitor_tick cfg ev s = monitor_ids cfg ev (map fst (trades s)) s"

fun close_ids :: "config \<Rightarrow> env \<Rightarrow> string \<Rightarrow> string list \<Rightarrow> state \<Rightarrow> state" where
  "close_ids cfg ev r [] s = s"
| "close_ids cfg ev r (trade_id # ids) s =
     close_ids cfg ev r ids
       (case get_trade s trade_id of
          None \<Rightarrow> s
        | Some t \<Rightarrow> if status t \<noteq> Open then s else close_trade_full cfg ev trade_id r None s)"

definition force_close_all_open_trades :: "config \<Rightarrow> env \<Rightarrow> string \<Rightarrow> state \<Rightarrow> state" where
  "force_close_all_open_trades cfg ev r s = close_ids cfg ev r (map fst (trades s)) s"

text \<open>The body of \<^verbatim>\<open>_auto_close_after\<close> once its sleep is over.\<close>

definition auto_close_after :: "config \<Rightarrow> env \<Rightarrow> string \<Rightarrow> state \<Rightarrow> state" where
  "auto_close_after cfg ev trade_id s =
     (let s1 =
            (case get_trade s trade_id of
               None \<Rightarrow> s
             | Some t \<Rightarrow>
                 if status t = Open \<and> 0 < remaining_size t
                 then close_trade_full cfg ev trade_id ''pump_timer'' None s else s)
      in s1\<lparr>timers := (timers s1)(trade_id := None)\<rparr>)"

subsection \<open>Entry gates\<close>

definition is_valid_asset :: "string \<Rightarrow> bool" where
  "is_valid_asset a = (endswith a ''-PERP-INTX'' \<or> endswith a ''-USD'' \<or> endswith a ''-USDC'')"

definition asset_base :: "string \<Rightarrow> string" where
  "asset_base a = (if CHR ''-'' \<in> set a then py_upper (takeWhile (\<lambda>c. c \<noteq> CHR ''-'') a)
                   else [])"

definition sanitize_leverage :: "config \<Rightarrow> int option \<Rightarrow> int" where
  "sanitize_leverage cfg v = max 1 (min (MAX_LEV cfg) (case v of None \<Rightarrow> 6 | Some l \<Rightarrow> l))"

definition sanitize_risk_pct :: "real option \<Rightarrow> real option" where
  "sanitize_risk_pct v =
     (case v of None \<Rightarrow> None | Some r \<Rightarrow> (if r \<le> 0 then None else Some (min 1 r)))"

record regime_profile =
  rp_regime :: string
  rp_risk_mult :: real
  rp_leverage_cap :: int
  rp_min_rr_add :: real

text \<open>\<^verbatim>\<open>get_regime_profile\<close> of \<^verbatim>\<open>regime.py\<close>.\<close>

definition get_regime_profile :: "config \<Rightarrow> state \<Rightarrow> regime_profile" where
  "get_regime_profile cfg s =
     (if regime s = ''trend''
      then \<lparr>rp_regime = ''trend'', rp_risk_mult = REGIME_RISK_MULT_TREND cfg,
            rp_leverage_cap = REGIME_LEV_CAP_TREND cfg,
            rp_min_rr_add = REGIME_MIN_RR_ADD_TREND cfg\<rparr>
      else if regime s = ''high_vol''
      then \<lparr>rp_regime = ''high_vol'', rp_risk_mult = REGIME_RISK_MULT_HIGH_VOL cfg,
            rp_leverage_cap = REGIME_LEV_CAP_HIGH_VOL cfg,
            rp_min_rr_add = REGIME_MIN_RR_ADD_HIGH_VOL cfg\<rparr>
      else \<lparr>rp_regime = ''chop'', rp_risk_mult = REGIME_RISK_MULT_CHOP cfg,
            rp_leverage_cap = REGIME_LEV_CAP_CHOP cfg,
            rp_min_rr_add = REGIME_MIN_RR_ADD_CHOP cfg\<rparr>)"

definition vol_spike_ratio :: "state \<Rightarrow> string \<Rightarrow> real option" where
  "vol_spike_ratio s a =
     (let a1 = opt_or_zero (atr_1h (vol_of s a)); a6 = opt_or_zero (atr_6h (vol_of s a))
      in if a1 \<le> 0 \<or> a6 \<le> 0 then None else Some (a1 / max a6 (1 / 10 ^ 12)))"

record entry_gate =
  eg_ok :: bool
  eg_rr :: "real option"
  eg_min_rr :: real
  eg_pump_score :: int
  eg_min_pump_score :: int
  eg_vol_spike :: "real option"
  eg_min_vol_spike :: real
  eg_regime :: string
  eg_reasons :: "string list"

definition evaluate_entry_gate ::
  "config \<Rightarrow> state \<Rightarrow> string \<Rightarrow> string \<Rightarrow> string \<Rightarrow> int \<Rightarrow> real \<Rightarrow> real option \<Rightarrow>
   real option \<Rightarrow> regime_profile \<Rightarrow> entry_gate" where
  "evaluate_entry_gate cfg s decision asset sleeve pump_score entry stop take_profit profile =
     (let rr = calc_rr decision entry stop take_profit;
          min_rr_base = (if sleeve = ''safe'' then DECISION_MIN_RR_SAFE cfg
                         else DECISION_MIN_RR_AGGRESSIVE cfg);
          min_rr = min_rr_base + rp_min_rr_add profile;
          vol_spike = vol_spike_ratio s asset;
          min_pump = DECISION_MIN_PUMP_SCORE cfg;
          min_vol_spike = DECISION_MIN_VOL_SPIKE cfg;
          reasons =
            (if pump_score < min_pump then [''pump_score<'' @ show_int min_pump] else [])
            @ (case vol_spike of
                 None \<Rightarrow> [''vol_spike_unavailable'']
               | Some v \<Rightarrow> (if v < min_vol_spike then [''vol_spike<'' @ fmt_fixed 2 min_vol_spike]
                            else []))
            @ (case rr of
                 None \<Rightarrow> [''rr_unavailable'']
               | Some r \<Rightarrow> (if r < min_rr then [''rr<'' @ fmt_fixed 2 min_rr] else []))
      in \<lparr>eg_ok = (reasons = []), eg_rr = rr, eg_min_rr = min_rr, eg_pump_score = pump_score,
          eg_min_pump_score = min_pump, eg_vol_spike = map_option (round_to 4) vol_spike,
          eg_min_vol_spike = min_vol_spike, eg_regime = rp_regime profile,
          eg_reasons = reasons\<rparr>)"
  for asset sleeve pump_score entry stop take_profit

definition hours_since_started :: "time \<Rightarrow> state \<Rightarrow> real" where
  "hours_since_started now s =
     (case started_at s of None \<Rightarrow> 0 | Some t \<Rightarrow> max 0 (of_int (now - t) / 3600))"

text \<open>\<^verbatim>\<open>_readiness_ready\<close> also writes its answer to \<^verbatim>\<open>state["ready_to_trade"]\<close>.\<close>

definition readiness_ready :: "config \<Rightarrow> time \<Rightarrow> state \<Rightarrow> bool \<times> state" where
  "readiness_ready cfg now s =
     (let ready = (READINESS_HOURS cfg \<le> 0 \<or> READINESS_HOURS cfg \<le> hours_since_started now s)
      in (ready, s\<lparr>ready_to_trade := ready\<rparr>))"

definition infer_close_side :: "position \<Rightarrow> real \<Rightarrow> string" where
  "infer_close_side p raw_size =
     (let side_raw = py_lower (strip (pos_side p))
      in if side_raw = ''long'' \<or> side_raw = ''buy'' then ''SELL''
         else if side_raw = ''short'' \<or> side_raw = ''sell'' then ''BUY''
         else if 0 < raw_size then ''SELL'' else ''BUY'')"

subsection \<open>Audit payloads of the gates\<close>

definition pv_strs :: "string list \<Rightarrow> pv" where
  "pv_strs xs = PList (map PStr xs)"

definition entry_gate_pv :: "entry_gate \<Rightarrow> pv" where
  "entry_gate_pv g =
     PDict [(''ok'', PBool (eg_ok g)), (''rr'', pv_opt_real (eg_rr g)),
            (''min_rr'', PReal (eg_min_rr g)), (''pump_score'', PInt (eg_pump_score g)),
            (''min_pump_score'', PInt (eg_min_pump_score g)),
            (''vol_spike'', pv_opt_real (eg_vol_spike g)),
            (''min_vol_spike'', PReal (eg_min_vol_spike g)),
            (''regime'', PStr (eg_regime g)), (''reasons'', pv_strs (eg_reasons g))]"

definition exec_gate_pv :: "exec_gate \<Rightarrow> pv" where
  "exec_gate_pv g =
     PDict [(''ok'', PBool (g_ok g)), (''hard_reasons'', pv_strs (hard_reasons g)),
            (''soft_penalty_conviction'', PInt (soft_penalty_conviction g)),
            (''soft_notes'', pv_strs (soft_notes g)),
            (''metrics'',
               PDict [(''spread_pct'', pv_opt_real (m_spread_pct (metrics g))),
                      (''hard_spread_cap_pct'', PReal (m_hard_spread_cap_pct (metrics g))),
                      (''bid_depth_usd'', pv_opt_real (m_bid_depth_usd (metrics g))),
                      (''ask_depth_usd'', pv_opt_real (m_ask_depth_usd (metrics g))),
                      (''total_depth_usd'', pv_opt_real (m_total_depth_usd (metrics g))),
                      (''min_depth_usd'', PReal (m_min_depth_usd (metrics g))),
                      (''ob_imbalance'', pv_opt_real (m_ob_imbalance (metrics g))),
                      (''tape_delta_pct'', pv_opt_real (m_tape_delta_pct (metrics g))),
                      (''tape_delta_usd'', pv_opt_real (m_tape_delta_usd (metrics g))),
                      (''tape_large_trades'', pv_opt_int (m_tape_large_trades (metrics g))),
                      (''tape_source'', pv_opt_str (m_tape_source (metrics g))),
                      (''cache_ts'', pv_opt_int (m_cache_ts (metrics g))),
                      (''cache_age_sec'', pv_opt_real (m_cache_age_sec (metrics g)))])]"

definition guard_size_to_vol1m :: "state \<Rightarrow> string \<Rightarrow> real \<Rightarrow> real option" where
  "guard_size_to_vol1m s a sz =
     (let v = opt_or_zero (volume_1m (liq_of s a))
      in if 0 < v then Some (sz / max v (1 / 10 ^ 12) * 100) else None)"

subsection \<open>Acting on a decision\<close>

text \<open>
  \<^verbatim>\<open>execute\<close> returns nothing and works by its effects: on \<^verbatim>\<open>state\<close>, on the durable tables
  and on the decision dictionary itself, whose missing levels it fills in. Its result here is
  the decision and the state it leaves. One exception escapes it: the division by a price of
  zero when the size is computed from the risk budget.
\<close>

datatype result = Done decision state | Raised string decision state

fun result_state :: "result \<Rightarrow> state" where
  "result_state (Done d s) = s"
| "result_state (Raised e d s) = s"

fun result_decision :: "result \<Rightarrow> decision" where
  "result_decision (Done d s) = d"
| "result_decision (Raised e d s) = d"

text \<open>The \<^verbatim>\<open>close\<close> branch: every open trade on the asset is closed in full, then the
  position the exchange reports is closed with one order.\<close>

fun close_asset_ids ::
  "config \<Rightarrow> env \<Rightarrow> string \<Rightarrow> string option \<Rightarrow> string list \<Rightarrow> state \<Rightarrow> state" where
  "close_asset_ids cfg ev a did [] s = s"
| "close_asset_ids cfg ev a did (trade_id # ids) s =
     close_asset_ids cfg ev a did ids
       (case get_trade s trade_id of
          None \<Rightarrow> s
        | Some t \<Rightarrow>
            if status t = Open \<and> asset t = a
            then close_trade_full cfg ev trade_id ''manual_close'' did s else s)"

definition execute_close ::
  "config \<Rightarrow> env \<Rightarrow> string \<Rightarrow> string \<Rightarrow> string option \<Rightarrow> state \<Rightarrow> state" where
  "execute_close cfg ev decision asset decision_id s =
     (let s1 = emit_trade_event (e_now ev) ''trade_close_requested'' decision_id None (Some asset)
                 [(''decision'', PStr decision), (''asset'', PStr asset)] s;
          s2 = close_asset_ids cfg ev asset decision_id (map fst (trades s1)) s1;
          raw_size = (case map_of (positions s2) asset of None \<Rightarrow> 0 | Some p \<Rightarrow> pos_size p);
          pside = (case map_of (positions s2) asset of
                     None \<Rightarrow> (if 0 < raw_size then ''SELL'' else ''BUY'')
                   | Some p \<Rightarrow> infer_close_side p raw_size)
      in if \<bar>raw_size\<bar> \<le> 0 then s2
         else if DRY_RUN_ORDERS cfg
         then record_execution_result (e_now ev) True ''dry_run'' ''simulated'' s2
         else if e_client ev = None
         then record_execution_result (e_now ev) False ''none'' ''client_unavailable'' s2
         else
           (let res = submit_live_order cfg (e_client ev) s2 asset pside \<bar>raw_size\<bar>
                        (price s2 asset) None
            in if \<not> r_ok (fst res)
               then
                 (let msg = (if r_reason (fst res) = [] then ''close_order_failed''
                             else r_reason (fst res));
                      s3 = (snd res)\<lparr>health := mark_exchange_failure cfg (e_now ev)
                             ''order_close'' (Some msg) (health (snd res))\<rparr>
                  in record_execution_result (e_now ev) False ''failed'' msg s3)
               else
                 (let s3 = (snd res)\<lparr>health := mark_exchange_success cfg (e_now ev)
                             ''order_close'' (health (snd res))\<rparr>
                  in record_execution_result (e_now ev) True (r_path (fst res))
                       (r_reason (fst res)) s3)))"
  for asset decision_id

text \<open>The levels a decision does not give: stop and take-profit from the ATR, and the
  trailing defaults.\<close>

definition fill_levels :: "state \<Rightarrow> decision \<Rightarrow> string \<Rightarrow> string \<Rightarrow> real \<Rightarrow> int \<Rightarrow> decision" where
  "fill_levels s dec decision asset price pump_score =
     (let atr_value = (if 60 \<le> pump_score then atr_1h (vol_of s asset)
                       else atr_6h (vol_of s asset));
          calc = derive_stop_take_profit decision price atr_value pump_score;
          d1 = (if d_stop dec = None \<or> d_take_profit dec = None
                then dec\<lparr>d_stop := (case d_stop dec of None \<Rightarrow> fst calc | Some x \<Rightarrow> Some x),
                         d_take_profit := (case d_take_profit dec of None \<Rightarrow> snd calc
                                           | Some x \<Rightarrow> Some x)\<rparr>
                else dec)
      in d1\<lparr>d_trailing_activation_pct :=
               (case d_trailing_activation_pct d1 of None \<Rightarrow> Some 10 | Some x \<Rightarrow> Some x),
             d_trailing_pct := (case d_trailing_pct d1 of None \<Rightarrow> Some 4 | Some x \<Rightarrow> Some x)\<rparr>)"
  for asset price pump_score

text \<open>The size of the order; \<open>None\<close> is the \<^verbatim>\<open>ZeroDivisionError\<close>.\<close>

definition open_size :: "config \<Rightarrow> state \<Rightarrow> decision \<Rightarrow> string \<Rightarrow> real \<Rightarrow> real \<Rightarrow> real option" where
  "open_size cfg s dec sleeve price risk_mult =
     (let risk_pct_override = sanitize_risk_pct (d_risk_pct_override dec);
          budget = (if mode s = ''hybrid''
                    then (if sleeve = ''safe'' then safe_target s else aggr_target s)
                    else equity s)
      in case d_contracts dec of
           Some c \<Rightarrow>
             (let size = \<bar>c\<bar> * risk_mult
              in case risk_pct_override of
                   Some ov \<Rightarrow>
                     (if 0 < price
                      then
                        (let max_notional = budget * ov;
                             max_size = (if 0 < max_notional then round8 (max_notional / price)
                                         else 0)
                         in Some (if 0 < max_size \<and> max_size < size then max_size else size))
                      else Some size)
                 | None \<Rightarrow> Some size)
         | None \<Rightarrow>
             (let risk_pct = (case risk_pct_override of
                                Some ov \<Rightarrow> ov
                              | None \<Rightarrow> (if sleeve = ''safe'' then RISK_SAFE cfg
                                          else RISK_NUCLEAR cfg));
                  notional = budget * risk_pct * risk_mult
              in if price = 0 then None else Some (round8 (notional / price))))"
  for sleeve price

text \<open>Recording the new trade once its order is placed, with the simulated entry slippage
  and fee, the audit event and the auto-close timer of a pump trade.\<close>

definition open_trade ::
  "config \<Rightarrow> env \<Rightarrow> decision \<Rightarrow> string \<Rightarrow> string \<Rightarrow> real \<Rightarrow> real \<Rightarrow> int \<Rightarrow> string \<Rightarrow>
   int \<Rightarrow> regime_profile \<Rightarrow> entry_gate \<Rightarrow> exec_gate \<Rightarrow> string \<Rightarrow> state \<Rightarrow> state" where
  "open_trade cfg ev dec asset side size price leverage sleeve pump_score profile gate xgate
     path s =
     (let entry_slippage_pct =
            (if SIMULATION_MODE cfg then sim_slippage_pct cfg s asset price pump_score else 0);
          entry_price =
            (if SIMULATION_MODE cfg then apply_slippage_to_price price side entry_slippage_pct
             else price);
          open_fee = (if SIMULATION_MODE cfg then estimate_taker_fee cfg entry_price size else 0);
          s1 = (if SIMULATION_MODE cfg \<and> 0 < open_fee
                then apply_sim_realized_pnl cfg (- open_fee) s else s);
          trade_id = (case d_id dec of
                        Some i \<Rightarrow> (if i = [] then e_uuid ev else i)
                      | None \<Rightarrow> e_uuid ev);
          conv = sanitize_conviction (case d_conviction dec of None \<Rightarrow> 0 | Some c \<Rightarrow> c);
          t = \<lparr>trade_ts = Some (e_now ev), asset = asset, side = side, trade_size = size,
               initial_size = size, remaining_size = size, status = Open, entry = entry_price,
               entry_ref_price = price, entry_slippage_pct = entry_slippage_pct,
               best_price = Some entry_price, leverage = leverage, stop = d_stop dec,
               take_profit = d_take_profit dec,
               trailing_activation_pct = d_trailing_activation_pct dec,
               trailing_pct = d_trailing_pct dec,
               expected_hold_min = d_expected_hold_min dec,
               funding_last_ts = Some (e_now ev), pump_score = pump_score,
               decision_id = d_decision_id dec, conviction = conv, sleeve = sleeve,
               trade_regime = rp_regime profile, rr = eg_rr gate, vol_spike = eg_vol_spike gate,
               execution_path = path,
               exec_gate_soft_penalty = soft_penalty_conviction xgate,
               guard_spread_pct = spread_pct (liq_of s asset),
               guard_size_to_vol1m_pct = guard_size_to_vol1m s asset size,
               partial_15 = False, partial_30 = False, pyramid_base_size = size,
               pyramid_add_count = 0, pyramid_last_rr = None, pyramid_last_ts = None,
               realized_pnl = - open_fee, realized_gross_pnl = 0, realized_fees = open_fee,
               realized_funding = 0,
               reason = (case d_reason dec of None \<Rightarrow> ''grok'' | Some r \<Rightarrow> r),
               closed_ts = None, close_reason = None\<rparr>;
          s2 = save_live_trade trade_id t (put_trade trade_id t s1);
          s3 = emit_trade_event (e_now ev) ''trade_opened'' (d_decision_id dec) (Some trade_id)
                 (Some asset)
                 [(''side'', PStr side), (''size'', PReal size), (''entry'', PReal entry_price),
                  (''entry_ref_price'', PReal price),
                  (''entry_slippage_pct'', PReal entry_slippage_pct),
                  (''open_fee'', PReal open_fee), (''stop'', pv_opt_real (d_stop dec)),
                  (''take_profit'', pv_opt_real (d_take_profit dec)),
                  (''regime'', PStr (rp_regime profile)), (''conviction'', PInt conv),
                  (''risk_mult'', PReal (rp_risk_mult profile)), (''leverage'', PInt leverage),
                  (''rr'', pv_opt_real (eg_rr gate)),
                  (''vol_spike'', pv_opt_real (eg_vol_spike gate)),
                  (''execution_path'', PStr path), (''exec_gate'', exec_gate_pv xgate),
                  (''soft_penalty_conviction'', PInt (soft_penalty_conviction xgate)),
                  (''guard_spread_pct'', pv_opt_real (spread_pct (liq_of s asset))),
                  (''guard_size_to_vol1m_pct'',
                     pv_opt_real (guard_size_to_vol1m s asset size))] s2
      in case d_expected_hold_min dec of
           None \<Rightarrow> s3
         | Some hold_minutes \<Rightarrow>
             (if 60 \<le> pump_score
              then s3\<lparr>timers := (timers s3)
                        (trade_id \<mapsto> e_now ev + max 1 (max 5 (min 90 hold_minutes)) * 60)\<rparr>
              else s3))"
  for asset side size price leverage sleeve pump_score

text \<open>After the sizing: the execution micro-gate, its conviction penalty, the order and the
  new trade.\<close>

definition execute_open_sized ::
  "config \<Rightarrow> env \<Rightarrow> decision \<Rightarrow> string \<Rightarrow> string \<Rightarrow> real \<Rightarrow> string \<Rightarrow> int \<Rightarrow>
   regime_profile \<Rightarrow> int \<Rightarrow> entry_gate \<Rightarrow> real \<Rightarrow> state \<Rightarrow> result" where
  "execute_open_sized cfg ev dec decision asset price sleeve pump_score profile leverage gate
     size s =
     (let side = (if decision = ''open_long'' then ''BUY'' else ''SELL'');
          xgate = execution_micro_gate cfg (e_now ev) s asset side size price;
          s1 = s\<lparr>execution_gate_last_ok := g_ok xgate,
                 execution_gate_last_reason :=
                   (if g_ok xgate then ''ok'' else join '';'' (hard_reasons xgate)),
                 execution_gate_last_ts := Some (e_now ev)\<rparr>
      in if \<not> g_ok xgate
         then Done dec
                (emit_trade_event (e_now ev) ''trade_open_rejected_exec_safety''
                   (d_decision_id dec) None (Some asset)
                   [(''decision'', PStr decision), (''asset'', PStr asset), (''side'', PStr side),
                    (''size'', PReal size), (''price'', PReal price), (''sleeve'', PStr sleeve),
                    (''exec_gate'', exec_gate_pv xgate)] s1)
         else
           (let soft_penalty = soft_penalty_conviction xgate;
                dec1 = (case d_conviction dec of
                          None \<Rightarrow> dec
                        | Some c \<Rightarrow>
                            (if 0 < soft_penalty
                             then dec\<lparr>d_conviction_raw_execgate := Some c,
                                      d_conviction := Some (max 0 (c - soft_penalty))\<rparr>
                             else dec));
                s2 = emit_trade_event (e_now ev) ''trade_open_requested'' (d_decision_id dec)
                       None (Some asset)
                       [(''decision'', PStr decision), (''asset'', PStr asset),
                        (''side'', PStr side), (''size'', PReal size), (''price'', PReal price),
                        (''sleeve'', PStr sleeve), (''pump_score'', PInt pump_score),
                        (''regime'', PStr (rp_regime profile)),
                        (''risk_mult'', PReal (rp_risk_mult profile)),
                        (''leverage_cap'', PInt (rp_leverage_cap profile)),
                        (''min_rr'', PReal (eg_min_rr gate)),
                        (''vol_spike'', pv_opt_real (eg_vol_spike gate)),
                        (''min_vol_spike'', PReal (eg_min_vol_spike gate)),
                        (''min_pump_score'', PInt (eg_min_pump_score gate)),
                        (''exec_gate'', exec_gate_pv xgate),
                        (''soft_penalty_conviction'', PInt soft_penalty),
                        (''conviction_after_execgate'', pv_opt_int (d_conviction dec1)),
                        (''guard_spread_pct'', pv_opt_real (spread_pct (liq_of s asset))),
                        (''guard_size_to_vol1m_pct'',
                           pv_opt_real (guard_size_to_vol1m s asset size))] s1;
                placed = place_order cfg ev s2 asset side size price
                           (if is_perp asset then Some leverage else None)
                           ''simulated'' ''open_order_failed''
            in case fst placed of
                 None \<Rightarrow> Done dec1 (snd placed)
               | Some path \<Rightarrow>
                   Done dec1
                     (open_trade cfg ev dec1 asset side size price leverage sleeve pump_score
                        profile gate xgate path (snd placed))))"
  for asset price sleeve pump_score leverage size

text \<open>After the sleeve checks: regime, leverage, levels, the entry-quality gate and the
  sizing.\<close>

definition execute_open_gated ::
  "config \<Rightarrow> env \<Rightarrow> decision \<Rightarrow> string \<Rightarrow> string \<Rightarrow> real \<Rightarrow> string \<Rightarrow> int \<Rightarrow> state \<Rightarrow>
   result" where
  "execute_open_gated cfg ev dec decision asset price sleeve pump_score s =
     (let profile = get_regime_profile cfg s;
          lev0 = sanitize_leverage cfg (d_leverage dec);
          lev1 = (if \<not> SIMULATION_MODE cfg \<and> 0 < equity s \<and> equity s < 100 then min lev0 3
                  else lev0);
          leverage = (if rp_leverage_cap profile < lev1 then rp_leverage_cap profile else lev1);
          dec1 = fill_levels s dec decision asset price pump_score;
          gate = evaluate_entry_gate cfg s decision asset sleeve pump_score price (d_stop dec1)
                   (d_take_profit dec1) profile;
          s1 = s\<lparr>decision_gate_last_ok := eg_ok gate,
                 decision_gate_last_reason :=
                   (if eg_ok gate then ''ok'' else join '';'' (eg_reasons gate)),
                 decision_gate_last_ts := Some (e_now ev)\<rparr>
      in if \<not> eg_ok gate
         then Done dec1
                (emit_trade_event (e_now ev) ''trade_open_rejected_quality'' (d_decision_id dec)
                   None (Some asset)
                   [(''decision'', PStr decision), (''asset'', PStr asset),
                    (''sleeve'', PStr sleeve), (''gate'', entry_gate_pv gate)] s1)
         else
           (case open_size cfg s1 dec1 sleeve price (rp_risk_mult profile) of
              None \<Rightarrow> Raised ''ZeroDivisionError'' dec1 s1
            | Some sz \<Rightarrow>
                if sz \<le> 0 then Done dec1 s1
                else execute_open_sized cfg ev dec1 decision asset price sleeve pump_score
                       profile leverage gate sz s1))"
  for asset price sleeve pump_score

text \<open>The gates before any of that: health, drawdown pause, readiness, shorts on
  perpetuals only, a price, the sleeve.\<close>

definition execute_open :: "config \<Rightarrow> env \<Rightarrow> decision \<Rightarrow> string \<Rightarrow> string \<Rightarrow> state \<Rightarrow> result" where
  "execute_open cfg ev dec decision asset s =
     (if entries_blocked cfg (health s) then Done dec s
      else if drawdown_paused (dd s) then Done dec s
      else
        (let rd = readiness_ready cfg (e_now ev) s; s0 = snd rd
         in if \<not> fst rd then Done dec s0
            else if decision = ''open_short'' \<and> \<not> is_perp asset then Done dec s0
            else
              (case (case d_price dec of
                       None \<Rightarrow> price s0 asset
                     | Some p \<Rightarrow> (if p = 0 then price s0 asset else Some p)) of
                 None \<Rightarrow> Done dec s0
               | Some px \<Rightarrow>
                   (let sleeve0 = py_lower (case d_sleeve dec of None \<Rightarrow> ''any''
                                                  | Some x \<Rightarrow> x);
                        sleeve1 = (if sleeve0 = ''aggressive'' \<or> sleeve0 = ''safe''
                                      \<or> sleeve0 = ''any'' then sleeve0 else ''any'');
                        sleeve = (if mode s0 = ''hybrid'' \<and> sleeve1 = ''any'' then ''aggressive''
                                  else sleeve1);
                        pump_score = (case d_pump_score dec of None \<Rightarrow> 0 | Some p \<Rightarrow> p);
                        safe_base_ok = (asset_base asset = ''BTC'' \<or> asset_base asset = ''ETH''
                                          \<or> asset_base asset = ''SOL'')
                    in if sleeve = ''safe''
                          \<and> \<not> (asset \<in> set (SAFE_ASSETS cfg)
                               \<or> (safe_base_ok
                                   \<and> (endswith asset ''-USD'' \<or> endswith asset ''-USDC'')))
                       then Done dec s0
                       else if sleeve = ''safe'' \<and> 60 \<le> pump_score then Done dec s0
                       else execute_open_gated cfg ev dec decision asset px sleeve pump_score
                              s0))))"
  for asset

definition execute :: "config \<Rightarrow> env \<Rightarrow> decision \<Rightarrow> state \<Rightarrow> result" where
  "execute cfg ev dec s =
     (let decision = py_lower (strip (d_decision dec))
      in if decision \<noteq> ''open_long'' \<and> decision \<noteq> ''open_short'' \<and> decision \<noteq> ''close''
         then Done dec s
         else
           (case d_asset dec of
              None \<Rightarrow> Done dec s
            | Some a \<Rightarrow>
                if a = [] then Done dec s
                else if \<not> is_valid_asset a then Done dec s
                else if decision = ''close''
                then Done dec (execute_close cfg ev decision a (d_decision_id dec) s)
                else execute_open cfg ev dec decision a s))"

section \<open>DrawdownGuard (\<^verbatim>\<open>drawdown.py\<close>)\<close>


text \<open>The in-memory history is loaded from the last 5000 rows of the table when it is
  empty.\<close>

definition ensure_equity_history_loaded :: "drawdown \<Rightarrow> drawdown" where
  "ensure_equity_history_loaded d =
     (if equity_history d \<noteq> [] then d
      else d\<lparr>equity_history := py_last 5000 (db_equity_history d)\<rparr>)"

definition append_equity_point :: "time \<Rightarrow> real \<Rightarrow> drawdown \<Rightarrow> drawdown" where
  "append_equity_point now eq d =
     (let history = equity_history d @ [(Some now, eq)];
          cutoff = now - 8 * 86400;
          filtered = filter (\<lambda>item. case fst item of None \<Rightarrow> True | Some t \<Rightarrow> cutoff \<le> t)
                       history
      in d\<lparr>equity_history := py_last 5000 filtered,
           db_equity_history := db_equity_history d @ [(Some now, eq)]\<rparr>)"











section \<open>Sequences of ledger operations\<close>

text \<open>
  What can happen to the ledger, one step at a time: the entry points of \<^verbatim>\<open>trade.py\<close>, each
  with the environment it runs in, and the writes of the market-data and account loops to the
  parts of \<^verbatim>\<open>state\<close> the ledger reads.
\<close>

datatype ledger_op =
    Execute env decision
  | Monitor_tick env
  | Close_partial env string real string
  | Pyramid_add env string real "real option" string
  | Close_full env string string "string option"
  | Auto_close env string
  | Force_close_all env string
  | Feed_price string "real option"
  | Feed_vol string "vol option"
  | Feed_liq string "liq option"
  | Feed_micro string "micro option"
  | Feed_equity real

fun apply_op :: "config \<Rightarrow> ledger_op \<Rightarrow> state \<Rightarrow> state" where
  "apply_op cfg (Execute ev dec) s = result_state (execute cfg ev dec s)"
| "apply_op cfg (Monitor_tick ev) s = monitor_tick cfg ev s"
| "apply_op cfg (Close_partial ev trade_id fraction r) s =
     snd (close_trade_partial cfg ev trade_id fraction r s)"
| "apply_op cfg (Pyramid_add ev trade_id current_price rr_now trigger) s =
     snd (try_pyramid_add cfg ev trade_id current_price rr_now trigger s)"
| "apply_op cfg (Close_full ev trade_id r did) s = close_trade_full cfg ev trade_id r did s"
| "apply_op cfg (Auto_close ev trade_id) s = auto_close_after cfg ev trade_id s"
| "apply_op cfg (Force_close_all ev r) s = force_close_all_open_trades cfg ev r s"
| "apply_op cfg (Feed_price a p) s = s\<lparr>price := (price s)(a := p)\<rparr>"
| "apply_op cfg (Feed_vol a v) s = s\<lparr>vol_cache := (vol_cache s)(a := v)\<rparr>"
| "apply_op cfg (Feed_liq a l) s = s\<lparr>exec_liq_cache := (exec_liq_cache s)(a := l)\<rparr>"
| "apply_op cfg (Feed_micro a m) s = s\<lparr>micro_cache := (micro_cache s)(a := m)\<rparr>"
| "apply_op cfg (Feed_equity e) s = s\<lparr>equity := e\<rparr>"

fun run_ops :: "config \<Rightarrow> ledger_op list \<Rightarrow> state \<Rightarrow> state" where
  "run_ops cfg [] s = s"
| "run_ops cfg (op # ops) s = run_ops cfg ops (apply_op cfg op s)"

text \<open>A property of every trade the state holds, and the two the ledger is to keep: the
  remaining size between zero and the trade's size, and the net result equal to gross result
  less fees less funding.\<close>

definition all_trades :: "(trade \<Rightarrow> bool) \<Rightarrow> state \<Rightarrow> bool" where
  "all_trades P s = list_all (\<lambda>kt. P (snd kt)) (trades s)"

definition size_ok :: "trade \<Rightarrow> bool" where
  "size_ok t = (0 \<le> remaining_size t \<and> remaining_size t \<le> trade_size t)"

definition pnl_consistent :: "trade \<Rightarrow> bool" where
  "pnl_consistent t =
     (realized_pnl t = realized_gross_pnl t - realized_fees t - realized_funding t)"

text \<open>The monitor's state at start-up.\<close>

definition health_initial :: health where
  "health_initial = \<lparr>health_state = Healthy, health_last_transition_ts = 0,
     health_consecutive_failures = 0, health_consecutive_successes = 0,
     health_last_success_ts = None, health_last_failure_ts = None,
     health_last_failure_reason = [], health_outage_since_ts = None,
     health_recovering_since_ts = None, health_outage_flattened = False\<rparr>"

text \<open>The drawdown guard's state and the whole \<^verbatim>\<open>state\<close> at start-up, with empty tables,
  no park marker and the clock at \<open>0\<close>.\<close>

definition drawdown_initial :: drawdown where
  "drawdown_initial =
     \<lparr>equity_history = [], db_equity_history = [], drawdown_paused = False,
      drawdown_pause_reason = [], drawdown_pause_ts = None, drawdown_daily_date = None,
      drawdown_daily_peak = 0, drawdown_weekly_peak = 0, drawdown_ath_peak = 0,
      drawdown_daily_dd_pct = 0, drawdown_weekly_dd_pct = 0, drawdown_ath_dd_pct = 0\<rparr>"

definition initial_state :: state where
  "initial_state =
     \<lparr>trades = [], timers = Map.empty, price = Map.empty, positions = [],
      equity = 250, sim_realized_pnl = 0, sim_base_equity = Some 250, mode = ''nuclear'',
      aggr_target = 250, safe_target = 0, parked = False, ready_to_trade = False,
      started_at = Some 0, regime = ''chop'', vol_cache = Map.empty,
      exec_liq_cache = Map.empty, micro_cache = Map.empty, health = health_initial,
      dd = drawdown_initial,
      decision_gate_last_ok = True, decision_gate_last_reason = [],
      decision_gate_last_ts = None,
      execution_gate_last_ok = True, execution_gate_last_reason = [],
      execution_gate_last_ts = None,
      execution_last_ok = True, execution_last_path = [], execution_last_reason = [],
      execution_last_ts = None,
      db_live_trades = Map.empty, db_trades = Map.empty, db_trade_events = [],
      orders = [], park_flag = False\<rparr>"

text \<open>Whether the micro-gate rejected on depth: one of its hard reasons is the depth one.\<close>

definition depth_rejected :: "exec_gate \<Rightarrow> bool" where
  "depth_rejected g = (\<exists>r \<in> set (hard_reasons g). take 6 r = ''depth<'')"






text \<open>An environment without a client, and a long trade as \<^verbatim>\<open>execute\<close> records it for the
  scenario of the specification: one contract at 50,000 with the stop at 49,100 and the
  take-profit at 51,350.\<close>

definition env0 :: env where
  "env0 = \<lparr>e_now = 0, e_client = None, e_uuid = ''trade-1''\<rparr>"

definition sample_trade :: trade where
  "sample_trade =
     \<lparr>trade_ts = Some 0, asset = ''BTC-PERP-INTX'', side = ''BUY'', trade_size = 1,
      initial_size = 1, remaining_size = 1, status = Open, entry = 50000,
      entry_ref_price = 50000, entry_slippage_pct = 0, best_price = Some 50000, leverage = 5,
      stop = Some 49100, take_profit = Some 51350, trailing_activation_pct = Some 10,
      trailing_pct = Some 4, expected_hold_min = None, funding_last_ts = Some 0,
      pump_score = 70, decision_id = Some ''d-1'', conviction = 90, sleeve = ''aggressive'',
      trade_regime = ''trend'', rr = Some 1.5, vol_spike = Some 1.2, execution_path = ''dry_run'',
      exec_gate_soft_penalty = 0, guard_spread_pct = None, guard_size_to_vol1m_pct = None,
      partial_15 = False, partial_30 = False, pyramid_base_size = 1, pyramid_add_count = 0,
      pyramid_last_rr = None, pyramid_last_ts = None, realized_pnl = 0, realized_gross_pnl = 0,
      realized_fees = 0, realized_funding = 0, reason = ''grok'', closed_ts = None,
      close_reason = None\<rparr>"

text \<open>A decision to hold.\<close>

definition hold_decision :: decision where
  "hold_decision =
     \<lparr>d_decision = ''hold'', d_asset = Some ''BTC-PERP-INTX'', d_decision_id = Some ''d-0'',
      d_id = None, d_price = None, d_sleeve = None, d_pump_score = None, d_leverage = None,
      d_contracts = None, d_stop = None, d_take_profit = None,
      d_trailing_activation_pct = None, d_trailing_pct = None, d_expected_hold_min = None,
      d_conviction = None, d_conviction_raw_execgate = None, d_risk_pct_override = None,
      d_reason = None\<rparr>"

text \<open>The same trade with its take-profit far away, in a ledger whose account holds a
  million and whose price feed says 51,800.\<close>

definition runner_trade :: trade where
  "runner_trade = sample_trade\<lparr>take_profit := Some 60000\<rparr>"

definition runner_state :: state where
  "runner_state =
     run_ops default_config
       [Feed_equity 1000000, Feed_price ''BTC-PERP-INTX'' (Some 51800)]
       (put_trade ''trade-1'' runner_trade initial_state)"

section \<open>Properties\<close>

subsection \<open>Stop, take-profit and risk/reward\<close>

text \<open>
  C6. An \<^verbatim>\<open>open_long\<close> at entry 50,000 with ATR 500 and pump score 70 and no explicit levels
  gets the stop 49,100 and the take-profit 51,350, whose risk/reward ratio is 1.5. In general a
  pump score of at least 60 selects the multipliers 1.8 and 2.7, a lower one 2.5 and 3.8.
\<close>

theorem derive_stop_take_profit_scenario:
  "derive_stop_take_profit ''open_long'' 50000 (Some 500) 70 = (Some 49100, Some 51350)
   \<and> calc_rr ''open_long'' 50000 (Some 49100) (Some 51350) = Some 1.5
   \<and> derive_stop_take_profit ''open_long'' entry (Some atr) pump_score =
       (if 60 \<le> pump_score
        then (Some (entry - 1.8 * atr), Some (entry + 2.7 * atr))
        else (Some (entry - 2.5 * atr), Some (entry + 3.8 * atr)))"
  for entry pump_score
  by (simp add: derive_stop_take_profit_def calc_rr_def Let_def)

subsection \<open>HealthMonitor\<close>

lemma failure_count: "health_consecutive_failures (mark_exchange_failure cfg now src exc h) = health_consecutive_failures h + 1"
  by (simp add: mark_exchange_failure_def set_health_state_def Let_def)

lemma failure_reaches_outage:
  "HEALTH_OUTAGE_FAILURES cfg \<le> int (health_consecutive_failures h) + 1 \<Longrightarrow>
   health_state (mark_exchange_failure cfg now src exc h) = Outage"
  by (simp add: mark_exchange_failure_def set_health_state_def Let_def)

lemma run_failures_count:
  "list_all is_failure evs \<Longrightarrow>
   health_consecutive_failures (health_run cfg h evs) = health_consecutive_failures h + length evs"
proof (induction evs arbitrary: h)
  case Nil then show ?case by simp
next
  case (Cons ev evs)
  then show ?case by (cases ev) (simp_all add: failure_count)
qed

lemma health_run_snoc: "health_run cfg h (evs @ [ev]) = health_step cfg (health_run cfg h evs) ev"
  by (induction evs arbitrary: h) simp_all

lemma run_failures_outage:
  assumes "list_all is_failure evs" "evs \<noteq> []"
    "HEALTH_OUTAGE_FAILURES cfg \<le> int (health_consecutive_failures h) + int (length evs)"
  shows "health_state (health_run cfg h evs) = Outage"
proof -
  obtain evs' ev where e: "evs = evs' @ [ev]" using assms(2) by (metis rev_exhaust)
  have a: "list_all is_failure evs'" and f: "is_failure ev" using assms(1) e by simp_all
  obtain now src exc where ev: "ev = Failure now src exc" using f by (cases ev) simp_all
  have c: "health_consecutive_failures (health_run cfg h evs') = health_consecutive_failures h + length evs'"
    using run_failures_count[OF a] .
  show ?thesis unfolding e health_run_snoc ev health_step.simps
    by (rule failure_reaches_outage) (use c assms(3) e in simp)
qed

lemma success_count: "health_consecutive_successes (mark_exchange_success cfg now src h) = health_consecutive_successes h + 1"
  by (simp add: mark_exchange_success_def set_health_state_def Let_def)

lemma success_keeps_recovering_or_healthy:
  "health_state h = Recovering \<or> health_state h = Healthy \<Longrightarrow>
   health_state (mark_exchange_success cfg now src h) = Recovering
   \<or> health_state (mark_exchange_success cfg now src h) = Healthy"
  by (auto simp add: mark_exchange_success_def set_health_state_def Let_def)

lemma success_reaches_healthy:
  "health_state h = Recovering \<or> health_state h = Healthy \<Longrightarrow>
   HEALTH_RECOVER_SUCCESS_STREAK cfg \<le> int (health_consecutive_successes h) + 1 \<Longrightarrow>
   health_state (mark_exchange_success cfg now src h) = Healthy"
  by (auto simp add: mark_exchange_success_def set_health_state_def Let_def)

lemma run_successes_inv:
  "list_all (\<lambda>ev. \<not> is_failure ev) evs \<Longrightarrow>
   health_state h = Recovering \<or> health_state h = Healthy \<Longrightarrow>
   health_consecutive_successes (health_run cfg h evs) = health_consecutive_successes h + length evs
   \<and> (health_state (health_run cfg h evs) = Recovering \<or> health_state (health_run cfg h evs) = Healthy)"
proof (induction evs arbitrary: h)
  case Nil then show ?case by simp
next
  case (Cons ev evs)
  from Cons.prems(1) obtain now src where ev: "ev = Success now src" by (cases ev) simp_all
  have "list_all (\<lambda>ev. \<not> is_failure ev) evs" using Cons.prems(1) by simp
  from Cons.IH[OF this success_keeps_recovering_or_healthy[OF Cons.prems(2)], of cfg now src]
  show ?case by (simp add: ev success_count)
qed

lemma run_successes_healthy:
  assumes "list_all (\<lambda>ev. \<not> is_failure ev) evs" "evs \<noteq> []"
    "health_state h = Recovering \<or> health_state h = Healthy"
    "HEALTH_RECOVER_SUCCESS_STREAK cfg \<le> int (health_consecutive_successes h) + int (length evs)"
  shows "health_state (health_run cfg h evs) = Healthy"
proof -
  obtain evs' ev where e: "evs = evs' @ [ev]" using assms(2) by (metis rev_exhaust)
  have a: "list_all (\<lambda>ev. \<not> is_failure ev) evs'" and f: "\<not> is_failure ev" using assms(1) e by simp_all
  obtain now src where ev: "ev = Success now src" using f by (cases ev) simp_all
  note inv = run_successes_inv[OF a assms(3), of cfg]
  show ?thesis unfolding e health_run_snoc ev health_step.simps
    by (rule success_reaches_healthy) (use inv assms(4) e in simp_all)
qed

text \<open>
  C3. From \<open>Healthy\<close>, as many consecutive failures as the outage threshold end in
  \<open>Outage\<close>; from \<open>Outage\<close> one success gives \<open>Recovering\<close>; from \<open>Recovering\<close>, as many
  consecutive successes as the recovery streak end in \<open>Healthy\<close>; and one failure while
  \<open>Recovering\<close> gives \<open>Outage\<close> at once.
\<close>

theorem health_monitor_transitions:
  "(0 < HEALTH_OUTAGE_FAILURES cfg \<and> health_state h = Healthy \<and> list_all is_failure fs
      \<and> int (length fs) = HEALTH_OUTAGE_FAILURES cfg
      \<longrightarrow> health_state (health_run cfg h fs) = Outage)
   \<and> (health_state h = Outage
      \<longrightarrow> health_state (mark_exchange_success cfg now source h) = Recovering)
   \<and> (0 < HEALTH_RECOVER_SUCCESS_STREAK cfg \<and> health_state h = Recovering
      \<and> list_all (\<lambda>ev. \<not> is_failure ev) ss
      \<and> int (length ss) = HEALTH_RECOVER_SUCCESS_STREAK cfg
      \<longrightarrow> health_state (health_run cfg h ss) = Healthy)
   \<and> (health_state h = Recovering
      \<longrightarrow> health_state (mark_exchange_failure cfg now source exc h) = Outage)"
proof (intro conjI impI)
  assume a: "0 < HEALTH_OUTAGE_FAILURES cfg \<and> health_state h = Healthy \<and> list_all is_failure fs
      \<and> int (length fs) = HEALTH_OUTAGE_FAILURES cfg"
  then have "fs \<noteq> []" by auto
  with a show "health_state (health_run cfg h fs) = Outage"
    by (intro run_failures_outage) simp_all
next
  assume "health_state h = Outage"
  then show "health_state (mark_exchange_success cfg now source h) = Recovering"
    by (simp add: mark_exchange_success_def set_health_state_def Let_def)
next
  assume a: "0 < HEALTH_RECOVER_SUCCESS_STREAK cfg \<and> health_state h = Recovering
      \<and> list_all (\<lambda>ev. \<not> is_failure ev) ss
      \<and> int (length ss) = HEALTH_RECOVER_SUCCESS_STREAK cfg"
  then have "ss \<noteq> []" by auto
  with a show "health_state (health_run cfg h ss) = Healthy"
    by (intro run_successes_healthy) simp_all
next
  assume "health_state h = Recovering"
  then show "health_state (mark_exchange_failure cfg now source exc h) = Outage"
    by (simp add: mark_exchange_failure_def set_health_state_def Let_def)
qed

theorem health_monitor_transitions_witness:
  "health_state (health_run default_config health_initial
      (replicate 5 (Failure 1 ''tick'' None))) = Outage
   \<and> health_state (mark_exchange_success default_config 9 ''tick''
        (health_initial\<lparr>health_state := Outage\<rparr>)) = Recovering
   \<and> health_state (health_run default_config (health_initial\<lparr>health_state := Recovering\<rparr>)
        (replicate 2 (Success 9 ''tick''))) = Healthy
   \<and> health_state (mark_exchange_failure default_config 9 ''tick'' None
        (health_initial\<lparr>health_state := Recovering\<rparr>)) = Outage"
proof -
  have c: "HEALTH_OUTAGE_FAILURES default_config = 5"
    "HEALTH_RECOVER_SUCCESS_STREAK default_config = 2"
    by (simp_all add: default_config_def)
  have s: "health_state health_initial = Healthy" by (simp add: health_initial_def)
  have 1: "health_state (health_run default_config health_initial
      (replicate 5 (Failure 1 ''tick'' None))) = Outage"
    using health_monitor_transitions[of default_config health_initial
        "replicate 5 (Failure 1 ''tick'' None)"] c s
    by (simp add: list_all_length)
  have 2: "health_state (mark_exchange_success default_config 9 ''tick''
        (health_initial\<lparr>health_state := Outage\<rparr>)) = Recovering"
    using health_monitor_transitions[of default_config "health_initial\<lparr>health_state := Outage\<rparr>"]
    by simp
  have 3: "health_state (health_run default_config (health_initial\<lparr>health_state := Recovering\<rparr>)
        (replicate 2 (Success 9 ''tick''))) = Healthy"
    using health_monitor_transitions[of default_config "health_initial\<lparr>health_state := Recovering\<rparr>"
        _ _ _ "replicate 2 (Success 9 ''tick'')"] c
    by (simp add: list_all_length)
  have 4: "health_state (mark_exchange_failure default_config 9 ''tick'' None
        (health_initial\<lparr>health_state := Recovering\<rparr>)) = Outage"
    using health_monitor_transitions[of default_config "health_initial\<lparr>health_state := Recovering\<rparr>"]
    by simp
  show ?thesis using 1 2 3 4 by simp
qed

subsection \<open>Execution micro-gate\<close>

text \<open>
  C10. The micro-gate rejects on depth exactly when a depth is reported, the total reported
  depth is strictly positive and it is below the larger of 10,000 and 1.2 times the intended
  notional; so with both depths missing, or a total of zero, it does not. The conviction
  penalty it returns is an integer between 0 and 40.
\<close>

theorem micro_gate_depth_and_penalty:
  "depth_rejected (execution_micro_gate cfg now s a sd sz px) =
     (\<not> (bid_depth_usd (micro_of s a) = None \<and> ask_depth_usd (micro_of s a) = None)
      \<and> 0 < opt_or_zero (bid_depth_usd (micro_of s a)) + opt_or_zero (ask_depth_usd (micro_of s a))
      \<and> opt_or_zero (bid_depth_usd (micro_of s a)) + opt_or_zero (ask_depth_usd (micro_of s a))
          < max 10000 (\<bar>sz\<bar> * px * 1.2))
   \<and> 0 \<le> soft_penalty_conviction (execution_micro_gate cfg now s a sd sz px)
   \<and> soft_penalty_conviction (execution_micro_gate cfg now s a sd sz px) \<le> 40"
  by (auto simp add: depth_rejected_def execution_micro_gate_def Let_def split: option.splits)

theorem micro_gate_depth_and_penalty_witness:
  "\<not> depth_rejected (execution_micro_gate default_config 0 initial_state ''BTC-USD'' ''BUY'' 1 50000)
   \<and> \<not> depth_rejected (execution_micro_gate default_config 0
        (initial_state\<lparr>micro_cache := [''BTC-USD'' \<mapsto>
            empty_micro\<lparr>bid_depth_usd := Some 0, ask_depth_usd := Some 0\<rparr>]\<rparr>)
        ''BTC-USD'' ''BUY'' 1 50000)
   \<and> depth_rejected (execution_micro_gate default_config 0
        (initial_state\<lparr>micro_cache := [''BTC-USD'' \<mapsto>
            empty_micro\<lparr>bid_depth_usd := Some 20000, ask_depth_usd := Some 30000\<rparr>]\<rparr>)
        ''BTC-USD'' ''BUY'' 1 50000)"
  using micro_gate_depth_and_penalty [of default_config 0 initial_state "''BTC-USD''" "''BUY''" 1 50000]
    micro_gate_depth_and_penalty [of default_config 0
        "initial_state\<lparr>micro_cache := [''BTC-USD'' \<mapsto>
            empty_micro\<lparr>bid_depth_usd := Some 0, ask_depth_usd := Some 0\<rparr>]\<rparr>"
        "''BTC-USD''" "''BUY''" 1 50000]
    micro_gate_depth_and_penalty [of default_config 0
        "initial_state\<lparr>micro_cache := [''BTC-USD'' \<mapsto>
            empty_micro\<lparr>bid_depth_usd := Some 20000, ask_depth_usd := Some 30000\<rparr>]\<rparr>"
        "''BTC-USD''" "''BUY''" 1 50000]
  by (simp add: micro_of_def initial_state_def empty_micro_def opt_or_zero_def)

subsection \<open>Order router\<close>


lemma failed_result_path: "r_path (failed_result errs) = ''failed''"
  by (simp add: failed_result_def)

lemma submit_market_path:
  "r_path (fst (submit_market cfg cl s a sd sz ref lt errs calls))
     \<in> {''market'', ''limit_retry_ioc'', ''rejected'', ''failed''}"
  by (simp add: submit_market_def Let_def call_client_def failed_result_path
      split: option.splits exn.splits)

lemma submit_ioc_path:
  "r_path (fst (submit_ioc cfg cl s a sd sz ref lt errs calls))
     \<in> {''ioc'', ''market'', ''limit_retry_ioc'', ''rejected'', ''failed''}"
  using submit_market_path [of cfg cl s a sd sz ref lt]
  by (auto simp add: submit_ioc_def Let_def call_client_def split: option.splits)

lemma submit_post_only_path:
  "r_path (fst (submit_post_only cfg cl s a sd sz ref lt calls))
     \<in> {''post_only'', ''ioc'', ''market'', ''limit_retry_ioc'', ''rejected'', ''failed''}"
  using submit_ioc_path [of cfg cl s a sd sz ref lt]
  by (auto simp add: submit_post_only_def Let_def call_client_def split: option.splits)










subsection \<open>TradeLedger: what each step leaves alone\<close>

lemma get_trade_put_trade:
  "get_trade (put_trade tid t s) tid' = (if tid' = tid then Some t else get_trade s tid')"
  by (simp add: get_trade_def put_trade_def update_conv')

lemma trades_record_execution_result [simp]:
  "trades (record_execution_result now ok p r s) = trades s"
  by (simp add: record_execution_result_def)

lemma trades_emit_trade_event [simp]: "trades (emit_trade_event now ty d ti a pl s) = trades s"
  by (simp add: emit_trade_event_def)

lemma trades_save_live_trade [simp]: "trades (save_live_trade tid t s) = trades s"
  by (simp add: save_live_trade_def)

lemma trades_delete_live_trade [simp]: "trades (delete_live_trade tid s) = trades s"
  by (simp add: delete_live_trade_def)

lemma trades_save_trade_journal [simp]: "trades (save_trade_journal tid r s) = trades s"
  by (simp add: save_trade_journal_def)

lemma trades_apply_sim_realized_pnl [simp]: "trades (apply_sim_realized_pnl cfg x s) = trades s"
  by (simp add: apply_sim_realized_pnl_def Let_def)

lemma trades_submit_live_order [simp]:
  "trades (snd (submit_live_order cfg cl s a sd sz ref lev)) = trades s"
  by (simp add: submit_live_order_def Let_def split: option.splits)

lemma trades_close_size [simp]: "trades (snd (close_size cfg ev s a sd sz)) = trades s"
  by (simp add: close_size_def Let_def)

lemma get_trade_cong: "trades s' = trades s \<Longrightarrow> get_trade s' tid = get_trade s tid"
  by (simp add: get_trade_def)

lemma get_trade_frames [simp]:
  "get_trade (record_execution_result now ok p r s) tid = get_trade s tid"
  "get_trade (emit_trade_event now ty d ti ea pl s) tid = get_trade s tid"
  "get_trade (save_live_trade tid' t s) tid = get_trade s tid"
  "get_trade (delete_live_trade tid' s) tid = get_trade s tid"
  "get_trade (save_trade_journal tid' jr s) tid = get_trade s tid"
  "get_trade (apply_sim_realized_pnl cfg x s) tid = get_trade s tid"
  "get_trade (snd (submit_live_order cfg cl s a sd sz ref lev)) tid = get_trade s tid"
  "get_trade (snd (close_size cfg ev s a sd sz)) tid = get_trade s tid"
  by (simp_all add: get_trade_def)

lemma close_trade_full_closed:
  "get_trade s tid = Some t \<Longrightarrow> status t = Open \<Longrightarrow>
   \<exists>t'. get_trade (close_trade_full cfg ev tid r d s) tid = Some t' \<and> status t' = Closed"
  by (simp add: close_trade_full_def Let_def get_trade_put_trade split: option.splits)

text \<open>
  C8. A full close of a trade that is closed already, or that is not among the live trades,
  returns the state as it found it: trades, balances, journal and events. So a second full
  close of the same trade, whatever its reason and clock, changes nothing.
\<close>

theorem close_trade_full_idempotent:
  "(get_trade s trade_id = None \<or> (\<exists>t. get_trade s trade_id = Some t \<and> status t \<noteq> Open)
      \<longrightarrow> close_trade_full cfg ev trade_id r d s = s)
   \<and> close_trade_full cfg ev2 trade_id r2 d2 (close_trade_full cfg ev trade_id r d s)
       = close_trade_full cfg ev trade_id r d s"
proof (intro conjI impI)
  assume "get_trade s trade_id = None \<or> (\<exists>t. get_trade s trade_id = Some t \<and> status t \<noteq> Open)"
  then show "close_trade_full cfg ev trade_id r d s = s"
    by (auto simp add: close_trade_full_def)
next
  show "close_trade_full cfg ev2 trade_id r2 d2 (close_trade_full cfg ev trade_id r d s)
       = close_trade_full cfg ev trade_id r d s"
  proof (cases "get_trade s trade_id")
    case None
    then show ?thesis by (simp add: close_trade_full_def)
  next
    case (Some t)
    show ?thesis
    proof (cases "status t = Open")
      case True
      from close_trade_full_closed [OF Some True, of cfg ev r d]
      obtain t' where "get_trade (close_trade_full cfg ev trade_id r d s) trade_id = Some t'"
        and "status t' = Closed" by blast
      then show ?thesis by (simp add: close_trade_full_def [of cfg ev2])
    next
      case False
      with Some show ?thesis by (simp add: close_trade_full_def)
    qed
  qed
qed

theorem close_trade_full_idempotent_witness:
  "close_trade_full default_config env0 ''trade-1'' ''stop'' None initial_state = initial_state
   \<and> close_trade_full default_config env0 ''trade-1'' ''stop'' None
       (put_trade ''trade-1'' (sample_trade\<lparr>status := Closed\<rparr>) initial_state)
     = put_trade ''trade-1'' (sample_trade\<lparr>status := Closed\<rparr>) initial_state"
proof -
  have a: "get_trade initial_state ''trade-1'' = None"
    by (simp add: get_trade_def initial_state_def)
  have b: "get_trade (put_trade ''trade-1'' (sample_trade\<lparr>status := Closed\<rparr>) initial_state)
             ''trade-1'' = Some (sample_trade\<lparr>status := Closed\<rparr>)"
    by (simp add: get_trade_put_trade)
  show ?thesis
    using close_trade_full_idempotent [of initial_state "''trade-1''" default_config env0
        "''stop''" None]
      close_trade_full_idempotent
        [of "put_trade ''trade-1'' (sample_trade\<lparr>status := Closed\<rparr>) initial_state"
          "''trade-1''" default_config env0 "''stop''" None] a b
    by simp
qed

subsection \<open>Decisions that are not acted on\<close>

text \<open>
  C9, as \<^verbatim>\<open>execute\<close> does it. The \<open>decision\<close> field is stripped of white space and put in
  lower case first. A decision whose field, so normalised, is none of \<open>open_long\<close>,
  \<open>open_short\<close>, \<open>close\<close> makes \<^verbatim>\<open>execute\<close> return with the decision and the whole state
  (trades, orders sent, events, journal, execution records) as they were; a \<open>hold\<close> is such a
  decision.
\<close>

theorem execute_ignores_other_decisions:
  "(py_lower (strip (d_decision dec)) \<notin> {''open_long'', ''open_short'', ''close''}
      \<longrightarrow> execute cfg ev dec s = Done dec s)
   \<and> (d_decision dec = ''hold'' \<longrightarrow> execute cfg ev dec s = Done dec s)"
  by (simp add: execute_def Let_def strip_def is_space_def lower_char_def py_lower_def)

theorem execute_ignores_other_decisions_witness:
  "execute default_config env0 hold_decision
     (put_trade ''trade-1'' sample_trade initial_state)
   = Done hold_decision (put_trade ''trade-1'' sample_trade initial_state)"
  using execute_ignores_other_decisions
    [of hold_decision default_config env0 "put_trade ''trade-1'' sample_trade initial_state"]
  by (simp add: hold_decision_def)

lemma lower_strip_CLOSE: "py_lower (strip ''CLOSE'') = ''close''"
  by code_simp

lemma valid_btc: "is_valid_asset ''BTC-PERP-INTX''"
  by code_simp

lemma execute_CLOSE:
  "execute cfg ev (hold_decision\<lparr>d_decision := ''CLOSE''\<rparr>) s
     = Done (hold_decision\<lparr>d_decision := ''CLOSE''\<rparr>)
         (execute_close cfg ev ''close'' ''BTC-PERP-INTX'' (Some ''d-0'') s)"
  by (simp add: execute_def lower_strip_CLOSE valid_btc hold_decision_def)

lemma ex_close_initial:
  "db_trade_events (execute_close default_config env0 ''close'' ''BTC-PERP-INTX'' (Some ''d-0'')
       initial_state)
   = [\<lparr>ev_ts = 0, ev_type = ''trade_close_requested'', ev_decision_id = Some ''d-0'',
        ev_trade_id = None, ev_asset = Some ''BTC-PERP-INTX'',
        ev_payload = [(''decision'', PStr ''close''), (''asset'', PStr ''BTC-PERP-INTX'')]\<rparr>]"
  by (simp add: execute_close_def emit_trade_event_def initial_state_def Let_def env0_def)

lemma ex_close_sample:
  "\<exists>t'. get_trade (execute_close default_config env0 ''close'' ''BTC-PERP-INTX'' (Some ''d-0'')
       (put_trade ''trade-1'' sample_trade initial_state)) ''trade-1'' = Some t'
     \<and> status t' = Closed"
proof -
  let ?s1 = "emit_trade_event (e_now env0) ''trade_close_requested'' (Some ''d-0'') None
               (Some ''BTC-PERP-INTX'')
               [(''decision'', PStr ''close''), (''asset'', PStr ''BTC-PERP-INTX'')]
               (put_trade ''trade-1'' sample_trade initial_state)"
  have t: "trades (put_trade ''trade-1'' sample_trade initial_state) = [(''trade-1'', sample_trade)]"
    by (simp add: put_trade_def initial_state_def)
  have g: "get_trade ?s1 ''trade-1'' = Some sample_trade"
    by (simp add: get_trade_put_trade)
  have o: "status sample_trade = Open" "asset sample_trade = ''BTC-PERP-INTX''"
    by (simp_all add: sample_trade_def)
  have c: "e_client env0 = None" by (simp add: env0_def)
  have "get_trade (execute_close default_config env0 ''close'' ''BTC-PERP-INTX'' (Some ''d-0'')
       (put_trade ''trade-1'' sample_trade initial_state)) ''trade-1''
     = get_trade (close_trade_full default_config env0 ''trade-1'' ''manual_close'' (Some ''d-0'')
         ?s1) ''trade-1''"
    by (simp add: execute_close_def Let_def t get_trade_put_trade o c)
  then show ?thesis
    using close_trade_full_closed [OF g o(1), of default_config env0 "''manual_close''" "Some ''d-0''"]
    by simp
qed

text \<open>
  C9 as written fails: the field \<open>CLOSE\<close> is none of the words \<open>open_long\<close>, \<open>open_short\<close>,
  \<open>close\<close>, yet \<^verbatim>\<open>execute\<close> normalises it to \<open>close\<close>, closes the open trade of the asset
  and records a \<open>trade_close_requested\<close> event.
\<close>

theorem execute_claim_counterexample:
  "d_decision (hold_decision\<lparr>d_decision := ''CLOSE''\<rparr>) \<notin> {''open_long'', ''open_short'', ''close''}
   \<and> map_option status
        (get_trade (put_trade ''trade-1'' sample_trade initial_state) ''trade-1'') = Some Open
   \<and> map_option status
        (get_trade (result_state (execute default_config env0
             (hold_decision\<lparr>d_decision := ''CLOSE''\<rparr>)
             (put_trade ''trade-1'' sample_trade initial_state))) ''trade-1'') = Some Closed
   \<and> map ev_type (db_trade_events (result_state (execute default_config env0
             (hold_decision\<lparr>d_decision := ''CLOSE''\<rparr>) initial_state)))
       = [''trade_close_requested'']"
  using ex_close_sample
  by (auto simp add: execute_CLOSE ex_close_initial get_trade_put_trade sample_trade_def)

subsection \<open>DrawdownGuard\<close>


lemma dd_frames [simp]:
  "drawdown_daily_date (append_equity_point now eq d) = drawdown_daily_date d"
  "drawdown_daily_peak (append_equity_point now eq d) = drawdown_daily_peak d"
  "drawdown_ath_peak (append_equity_point now eq d) = drawdown_ath_peak d"
  "drawdown_paused (append_equity_point now eq d) = drawdown_paused d"
  "drawdown_daily_date (ensure_equity_history_loaded d) = drawdown_daily_date d"
  "drawdown_daily_peak (ensure_equity_history_loaded d) = drawdown_daily_peak d"
  "drawdown_ath_peak (ensure_equity_history_loaded d) = drawdown_ath_peak d"
  "drawdown_paused (ensure_equity_history_loaded d) = drawdown_paused d"
  by (simp_all add: append_equity_point_def ensure_equity_history_loaded_def Let_def)
















subsection \<open>Properties kept by every trade\<close>

lemma all_trades_get:
  assumes "all_trades P s" "get_trade s tid = Some t"
  shows "P t"
proof -
  from assms(2) have "(tid, t) \<in> set (trades s)"
    by (simp add: get_trade_def map_of_SomeD)
  with assms(1) show ?thesis
    by (auto simp add: all_trades_def list_all_iff)
qed

lemma list_all_update:
  "list_all (\<lambda>kt. P (snd kt)) al \<Longrightarrow> P v \<Longrightarrow> list_all (\<lambda>kt. P (snd kt)) (AList.update k v al)"
  by (induction al) auto

lemma all_trades_put: "all_trades P s \<Longrightarrow> P t \<Longrightarrow> all_trades P (put_trade tid t s)"
  by (simp add: all_trades_def put_trade_def list_all_update)

lemma all_trades_eq: "trades s' = trades s \<Longrightarrow> all_trades P s' = all_trades P s"
  by (simp add: all_trades_def)

lemma all_trades_frames [simp]:
  "all_trades P (record_execution_result now ok p r s) = all_trades P s"
  "all_trades P (emit_trade_event now ty d ti ea pl s) = all_trades P s"
  "all_trades P (save_live_trade tid' t s) = all_trades P s"
  "all_trades P (delete_live_trade tid' s) = all_trades P s"
  "all_trades P (save_trade_journal tid' jr s) = all_trades P s"
  "all_trades P (apply_sim_realized_pnl cfg x s) = all_trades P s"
  "all_trades P (snd (submit_live_order cfg cl s a sd sz ref lev)) = all_trades P s"
  "all_trades P (snd (close_size cfg ev s a sd sz)) = all_trades P s"
  by (simp_all add: all_trades_def)

lemma all_trades_upd: "all_trades P s \<Longrightarrow> (\<And>t. P t \<Longrightarrow> P (f t)) \<Longrightarrow> all_trades P (upd_trade tid f s)"
  by (auto simp add: upd_trade_def all_trades_put all_trades_get split: option.splits)

subsection \<open>Net result = gross - fees - funding\<close>

lemma pnl_funding_drag: "pnl_consistent t \<Longrightarrow> pnl_consistent (snd (estimate_funding_drag cfg now t px sz))"
  by (simp add: estimate_funding_drag_def pnl_consistent_def Let_def split: option.splits)

lemma pnl_realize: "pnl_consistent t \<Longrightarrow> pnl_consistent (f_trade (realize cfg now s t sz))"
  using pnl_funding_drag [of t cfg now]
  by (simp add: realize_def Let_def pnl_consistent_def)

lemma pnl_close_trade_partial:
  "all_trades pnl_consistent s \<Longrightarrow>
   all_trades pnl_consistent (snd (close_trade_partial cfg ev tid fr r s))"
proof -
  assume a: "all_trades pnl_consistent s"
  have "\<And>t s' sz x. get_trade s tid = Some t \<Longrightarrow>
      pnl_consistent ((f_trade (realize cfg (e_now ev) s' t sz))\<lparr>remaining_size := x\<rparr>)"
    using pnl_realize all_trades_get [OF a] by (simp add: pnl_consistent_def)
  then show ?thesis using a
    by (simp add: close_trade_partial_def Let_def all_trades_put split: option.splits)
qed


lemma trades_place_order [simp]:
  "trades (snd (place_order cfg ev s a sd sz px lev dt ft)) = trades s"
  by (simp add: place_order_def Let_def)

lemma all_trades_place_order [simp]:
  "all_trades P (snd (place_order cfg ev s a sd sz px lev dt ft)) = all_trades P s"
  by (simp add: all_trades_def)

lemma get_trade_place_order [simp]:
  "get_trade (snd (place_order cfg ev s a sd sz px lev dt ft)) tid = get_trade s tid"
  by (simp add: get_trade_def)

lemma pnl_pyramid_book:
  "all_trades pnl_consistent s \<Longrightarrow> pnl_consistent t \<Longrightarrow>
   all_trades pnl_consistent (pyramid_book ev tid t add rr_now conv trg path ex mx s)"
  by (simp add: pyramid_book_def Let_def all_trades_put pnl_consistent_def)

lemma pnl_try_pyramid_add:
  "all_trades pnl_consistent s \<Longrightarrow>
   all_trades pnl_consistent (snd (try_pyramid_add cfg ev tid px rr_now trg s))"
proof -
  assume a: "all_trades pnl_consistent s"
  have p: "\<And>t. get_trade s tid = Some t \<Longrightarrow> pnl_consistent t"
    using all_trades_get [OF a] .
  show ?thesis using a p
    by (simp add: try_pyramid_add_def Let_def pnl_pyramid_book split: option.splits)
qed

lemma pnl_close_trade_full:
  "all_trades pnl_consistent s \<Longrightarrow> all_trades pnl_consistent (close_trade_full cfg ev tid r d s)"
proof -
  assume a: "all_trades pnl_consistent s"
  have 1: "\<And>t s' sz x y z w. get_trade s tid = Some t \<Longrightarrow>
      pnl_consistent ((f_trade (realize cfg (e_now ev) s' t sz))
        \<lparr>remaining_size := x, status := y, closed_ts := z, close_reason := w\<rparr>)"
    using pnl_realize all_trades_get [OF a] by (simp add: pnl_consistent_def)
  have 2: "\<And>t y z w. get_trade s tid = Some t \<Longrightarrow>
      pnl_consistent (t\<lparr>status := y, closed_ts := z, close_reason := w\<rparr>)"
    using all_trades_get [OF a] by (simp add: pnl_consistent_def)
  show ?thesis using a 1 2
    by (simp add: close_trade_full_def Let_def all_trades_put split: option.splits)
qed

lemma pnl_funding_tick:
  "all_trades pnl_consistent s \<Longrightarrow> all_trades pnl_consistent (funding_tick cfg ev tid px s)"
proof -
  assume a: "all_trades pnl_consistent s"
  have 1: "\<And>t sz. get_trade s tid = Some t \<Longrightarrow>
      pnl_consistent (snd (estimate_funding_drag cfg (e_now ev) t px sz))"
    using pnl_funding_drag all_trades_get [OF a] by simp
  have 2: "\<And>t sz c. get_trade s tid = Some t \<Longrightarrow>
      pnl_consistent ((snd (estimate_funding_drag cfg (e_now ev) t px sz))
        \<lparr>realized_funding := realized_funding (snd (estimate_funding_drag cfg (e_now ev) t px sz)) + c,
         realized_pnl := realized_pnl (snd (estimate_funding_drag cfg (e_now ev) t px sz)) - c\<rparr>)"
    using 1 by (simp add: pnl_consistent_def)
  show ?thesis using a 1 2
    by (simp add: funding_tick_def Let_def all_trades_put split: option.splits)
qed

lemma pnl_update_trailing_stop: "pnl_consistent (update_trailing_stop t px) = pnl_consistent t"
  by (simp add: update_trailing_stop_def Let_def pnl_consistent_def split: option.splits)

lemma pnl_trailing_tick:
  "all_trades pnl_consistent s \<Longrightarrow> all_trades pnl_consistent (trailing_tick tid px s)"
  unfolding trailing_tick_def
  by (rule all_trades_upd) (simp_all add: Let_def pnl_update_trailing_stop split: option.splits)

lemma pnl_partial_tick:
  "all_trades pnl_consistent s \<Longrightarrow> all_trades pnl_consistent (snd (partial_tick cfg ev tid rr_now s))"
proof -
  assume a: "all_trades pnl_consistent s"
  have f: "\<And>s' x. all_trades pnl_consistent s' \<Longrightarrow>
      all_trades pnl_consistent (upd_trade tid (\<lambda>t. t\<lparr>partial_15 := x\<rparr>) s')"
      "\<And>s' x. all_trades pnl_consistent s' \<Longrightarrow>
      all_trades pnl_consistent (upd_trade tid (\<lambda>t. t\<lparr>partial_30 := x\<rparr>) s')"
    by (rule all_trades_upd, simp, simp add: pnl_consistent_def)+
  show ?thesis using a
    by (simp add: partial_tick_def Let_def f pnl_close_trade_partial
        split: option.splits prod.splits)
qed

lemma pnl_pyramid_tick:
  "all_trades pnl_consistent s \<Longrightarrow> all_trades pnl_consistent (pyramid_tick cfg ev tid px rr_now b s)"
  by (simp add: pyramid_tick_def pnl_try_pyramid_add split: option.splits)

lemma pnl_exit_tick:
  "all_trades pnl_consistent s \<Longrightarrow> all_trades pnl_consistent (exit_tick cfg ev tid px s)"
proof -
  assume a: "all_trades pnl_consistent s"
  have 2: "\<And>t y z w. get_trade s tid = Some t \<Longrightarrow>
      pnl_consistent (t\<lparr>status := y, closed_ts := z, close_reason := w\<rparr>)"
    using all_trades_get [OF a] by (simp add: pnl_consistent_def)
  show ?thesis using a 2
    by (simp add: exit_tick_def Let_def all_trades_put pnl_close_trade_full split: option.splits)
qed

lemma pnl_process_open_trade:
  "all_trades pnl_consistent s \<Longrightarrow> all_trades pnl_consistent (process_open_trade cfg ev tid s)"
  by (simp add: process_open_trade_def Let_def pnl_funding_tick pnl_trailing_tick
      pnl_partial_tick pnl_pyramid_tick pnl_exit_tick split: option.splits)

lemma pnl_monitor_ids:
  "all_trades pnl_consistent s \<Longrightarrow> all_trades pnl_consistent (monitor_ids cfg ev ids s)"
  by (induction ids arbitrary: s) (simp_all add: pnl_process_open_trade split: option.splits)

lemma pnl_close_ids:
  "all_trades pnl_consistent s \<Longrightarrow> all_trades pnl_consistent (close_ids cfg ev r ids s)"
  by (induction ids arbitrary: s) (simp_all add: pnl_close_trade_full split: option.splits)

lemma pnl_close_asset_ids:
  "all_trades pnl_consistent s \<Longrightarrow> all_trades pnl_consistent (close_asset_ids cfg ev a d ids s)"
  by (induction ids arbitrary: s) (simp_all add: pnl_close_trade_full split: option.splits)

lemma pnl_auto_close_after:
  "all_trades pnl_consistent s \<Longrightarrow> all_trades pnl_consistent (auto_close_after cfg ev tid s)"
  by (simp add: auto_close_after_def Let_def all_trades_eq [of "_\<lparr>timers := _\<rparr>"]
      pnl_close_trade_full split: option.splits)

lemma trades_readiness_ready [simp]: "trades (snd (readiness_ready cfg now s)) = trades s"
  by (simp add: readiness_ready_def Let_def)

lemma emit_trade_event_state_cong:
  "s = s' \<Longrightarrow> emit_trade_event now ty d ti a pl s = emit_trade_event now ty d ti a pl s'"
  by simp

lemma pnl_open_trade:
  "all_trades pnl_consistent s \<Longrightarrow>
   all_trades pnl_consistent (open_trade cfg ev dec a sd sz px lev sl ps prof gate xg path s)"
  by (simp add: open_trade_def Let_def all_trades_put pnl_consistent_def
      all_trades_eq [of "_\<lparr>timers := _\<rparr>"] split: option.splits)

lemma all_trades_gate_fields [simp]:
  "all_trades P (s\<lparr>execution_gate_last_ok := a, execution_gate_last_reason := b,
      execution_gate_last_ts := c\<rparr>) = all_trades P s"
  "all_trades P (s\<lparr>decision_gate_last_ok := a, decision_gate_last_reason := b,
      decision_gate_last_ts := c\<rparr>) = all_trades P s"
  by (simp_all add: all_trades_def)

lemma pnl_execute_open_sized:
  "all_trades pnl_consistent s \<Longrightarrow>
   all_trades pnl_consistent
     (result_state (execute_open_sized cfg ev dec dc a px sl ps prof lev gate sz s))"
  by (simp add: execute_open_sized_def Let_def pnl_open_trade
      split: option.splits cong: emit_trade_event_state_cong)


lemma pnl_execute_open_gated:
  "all_trades pnl_consistent s \<Longrightarrow>
   all_trades pnl_consistent (result_state (execute_open_gated cfg ev dec dc a px sl ps s))"
  by (simp add: execute_open_gated_def Let_def pnl_execute_open_sized
      split: option.splits cong: emit_trade_event_state_cong)


lemma all_trades_readiness_ready [simp]:
  "all_trades P (snd (readiness_ready cfg now s)) = all_trades P s"
  by (simp add: all_trades_def)

lemma pnl_execute_open:
  "all_trades pnl_consistent s \<Longrightarrow>
   all_trades pnl_consistent (result_state (execute_open cfg ev dec dc a s))"
  by (simp add: execute_open_def Let_def pnl_execute_open_gated split: option.splits)

lemma all_trades_health_field [simp]: "all_trades P (s\<lparr>health := h\<rparr>) = all_trades P s"
  by (simp add: all_trades_def)

lemma all_trades_submit_live_order [simp]:
  "all_trades P (snd (submit_live_order cfg cl s a sd sz ref lev)) = all_trades P s"
  by (simp add: all_trades_def)

lemma pnl_execute_close:
  "all_trades pnl_consistent s \<Longrightarrow>
   all_trades pnl_consistent (execute_close cfg ev dc a d s)"
  by (simp add: execute_close_def Let_def pnl_close_asset_ids
      cong: emit_trade_event_state_cong)

lemma pnl_execute:
  "all_trades pnl_consistent s \<Longrightarrow>
   all_trades pnl_consistent (result_state (execute cfg ev dec s))"
  by (simp add: execute_def Let_def pnl_execute_open pnl_execute_close split: option.splits)

lemma all_trades_feeds [simp]:
  "all_trades P (s\<lparr>price := p\<rparr>) = all_trades P s"
  "all_trades P (s\<lparr>vol_cache := v\<rparr>) = all_trades P s"
  "all_trades P (s\<lparr>exec_liq_cache := l\<rparr>) = all_trades P s"
  "all_trades P (s\<lparr>micro_cache := m\<rparr>) = all_trades P s"
  "all_trades P (s\<lparr>equity := e\<rparr>) = all_trades P s"
  by (simp_all add: all_trades_def)

lemma pnl_apply_op:
  "all_trades pnl_consistent s \<Longrightarrow> all_trades pnl_consistent (apply_op cfg op s)"
  by (cases op)
    (simp_all add: pnl_execute monitor_tick_def pnl_monitor_ids pnl_close_trade_partial
      pnl_try_pyramid_add pnl_close_trade_full pnl_auto_close_after
      force_close_all_open_trades_def pnl_close_ids)

lemma pnl_run_ops:
  "all_trades pnl_consistent s \<Longrightarrow> all_trades pnl_consistent (run_ops cfg ops s)"
  by (induction ops arbitrary: s) (simp_all add: pnl_apply_op)

text \<open>
  C2. Whatever the ledger does (a decision executed, a monitor tick with its funding drag,
  partial closes, pyramid adds and exits, a partial close, a pyramid add, a full close, an
  auto-close, a forced close of everything) and whatever the market-data loops write in
  between, a trade whose realised net result was the gross result less fees less funding
  before still has it so after; and every trade of a ledger that started without trades has
  it so after every sequence of operations. The numbers are reals, so the identity is exact.
\<close>

theorem realized_pnl_identity:
  "(all_trades pnl_consistent s \<longrightarrow> all_trades pnl_consistent (run_ops cfg ops s))
   \<and> (trades s = [] \<longrightarrow>
        (\<forall>kt \<in> set (trades (run_ops cfg ops s)).
           realized_pnl (snd kt)
             = realized_gross_pnl (snd kt) - realized_fees (snd kt) - realized_funding (snd kt)))"
proof (intro conjI impI)
  assume "all_trades pnl_consistent s"
  then show "all_trades pnl_consistent (run_ops cfg ops s)" by (rule pnl_run_ops)
next
  assume "trades s = []"
  then have "all_trades pnl_consistent s" by (simp add: all_trades_def)
  then have "all_trades pnl_consistent (run_ops cfg ops s)" by (rule pnl_run_ops)
  then show "\<forall>kt \<in> set (trades (run_ops cfg ops s)).
           realized_pnl (snd kt)
             = realized_gross_pnl (snd kt) - realized_fees (snd kt) - realized_funding (snd kt)"
    by (simp add: all_trades_def list_all_iff pnl_consistent_def)
qed

lemma sample_consistent:
  "all_trades pnl_consistent (put_trade ''trade-1'' sample_trade initial_state)"
  by (simp add: all_trades_def put_trade_def initial_state_def sample_trade_def
      pnl_consistent_def)

theorem realized_pnl_identity_witness:
  "all_trades pnl_consistent
     (run_ops default_config
        [Feed_price ''BTC-PERP-INTX'' (Some 51500), Monitor_tick (env0\<lparr>e_now := 3600\<rparr>),
         Close_full (env0\<lparr>e_now := 7200\<rparr>) ''trade-1'' ''manual_close'' None]
        (put_trade ''trade-1'' sample_trade initial_state))
   \<and> list_all (\<lambda>kt. realized_pnl (snd kt)
          = realized_gross_pnl (snd kt) - realized_fees (snd kt) - realized_funding (snd kt))
       (trades (run_ops default_config
          [Feed_price ''BTC-PERP-INTX'' (Some 50000),
           Execute env0 (hold_decision\<lparr>d_decision := ''open_long''\<rparr>),
           Monitor_tick (env0\<lparr>e_now := 3600\<rparr>)] initial_state))"
  using realized_pnl_identity [of "put_trade ''trade-1'' sample_trade initial_state"
      default_config
      "[Feed_price ''BTC-PERP-INTX'' (Some 51500), Monitor_tick (env0\<lparr>e_now := 3600\<rparr>),
        Close_full (env0\<lparr>e_now := 7200\<rparr>) ''trade-1'' ''manual_close'' None]"]
    realized_pnl_identity [of initial_state default_config
      "[Feed_price ''BTC-PERP-INTX'' (Some 50000),
        Execute env0 (hold_decision\<lparr>d_decision := ''open_long''\<rparr>),
        Monitor_tick (env0\<lparr>e_now := 3600\<rparr>)]"]
    sample_consistent
  by (simp only: list_all_iff) (simp add: initial_state_def)

subsection \<open>Rounding to eight decimals\<close>

lemma py_round_floor: "py_round x = \<lfloor>x\<rfloor> \<or> py_round x = \<lfloor>x\<rfloor> + 1"
  by (simp add: py_round_def Let_def)

lemma py_round_mono: "x \<le> y \<Longrightarrow> py_round x \<le> py_round y"
proof -
  assume a: "x \<le> y"
  then have f: "\<lfloor>x\<rfloor> \<le> \<lfloor>y\<rfloor>" by (rule floor_mono)
  show ?thesis
  proof (cases "\<lfloor>x\<rfloor> = \<lfloor>y\<rfloor>")
    case True
    then show ?thesis using a by (auto simp add: py_round_def Let_def)
  next
    case False
    then have "\<lfloor>x\<rfloor> + 1 \<le> \<lfloor>y\<rfloor>" using f by simp
    moreover have "py_round x \<le> \<lfloor>x\<rfloor> + 1" using py_round_floor [of x] by auto
    moreover have "\<lfloor>y\<rfloor> \<le> py_round y" using py_round_floor [of y] by auto
    ultimately show ?thesis by simp
  qed
qed

lemma py_round_upper: "of_int (py_round x) \<le> x + 1 / 2"
proof -
  define f where "f = \<lfloor>x\<rfloor>"
  have "of_int f \<le> x" by (simp add: f_def)
  then show ?thesis
    unfolding py_round_def Let_def f_def [symmetric]
    by (cases "x - of_int f < 1 / 2"; cases "1 / 2 < x - of_int f"; cases "even f") simp_all
qed

lemma py_round_0 [simp]: "py_round 0 = 0"
  by (simp add: py_round_def)

lemma round8_mono: "x \<le> y \<Longrightarrow> round8 x \<le> round8 y"
  using py_round_mono [of "x * 10 ^ 8" "y * 10 ^ 8"]
  by (simp add: round8_def divide_right_mono)

lemma round8_0 [simp]: "round8 0 = 0"
  by (simp add: round8_def)

lemma round8_nonneg: "0 \<le> x \<Longrightarrow> 0 \<le> round8 x"
  using round8_mono [of 0 x] by simp

lemma round8_upper: "round8 x \<le> x + 1 / (2 * 10 ^ 8)"
proof -
  have "of_int (py_round (x * 10 ^ 8)) / 10 ^ 8 \<le> (x * 10 ^ 8 + 1 / 2) / (10 ^ 8 :: real)"
    using py_round_upper [of "x * 10 ^ 8"] by (intro divide_right_mono) simp_all
  then show ?thesis by (simp add: round8_def add_divide_distrib)
qed

lemma round8_pos: "0 < round8 x \<Longrightarrow> 1 / 10 ^ 8 \<le> round8 x"
proof -
  assume "0 < round8 x"
  then have "0 < (of_int (py_round (x * 10 ^ 8)) :: real)"
    by (simp add: round8_def zero_less_divide_iff)
  then have "1 \<le> py_round (x * 10 ^ 8)" by simp
  then have "(1 :: real) \<le> of_int (py_round (x * 10 ^ 8))" by linarith
  then show ?thesis by (simp add: round8_def divide_right_mono)
qed

text \<open>What is left after a partial close of a positive size.\<close>

lemma partial_remaining:
  assumes "0 < min (round8 y) r"
  shows "0 \<le> round8 (r - min (round8 y) r) \<and> round8 (r - min (round8 y) r) < r"
proof (cases "round8 y < r")
  case True
  then have m: "min (round8 y) r = round8 y" by simp
  with assms have "1 / 10 ^ 8 \<le> round8 y" using round8_pos by simp
  then have "r - round8 y + 1 / (2 * 10 ^ 8) < r" by simp
  then have "round8 (r - round8 y) < r" using round8_upper [of "r - round8 y"] by linarith
  moreover have "0 \<le> round8 (r - round8 y)" using True by (intro round8_nonneg) simp
  ultimately show ?thesis by (simp add: m)
next
  case False
  then have m: "min (round8 y) r = r" by simp
  with assms show ?thesis by simp
qed

subsection \<open>The remaining size between zero and the size\<close>

lemma sizes_funding_drag [simp]:
  "remaining_size (snd (estimate_funding_drag cfg now t px sz)) = remaining_size t"
  "trade_size (snd (estimate_funding_drag cfg now t px sz)) = trade_size t"
  by (simp_all add: estimate_funding_drag_def Let_def split: option.splits)

lemma sizes_realize [simp]:
  "remaining_size (f_trade (realize cfg now s t sz)) = remaining_size t"
  "trade_size (f_trade (realize cfg now s t sz)) = trade_size t"
  by (simp_all add: realize_def Let_def)

lemma size_funding_drag: "size_ok t \<Longrightarrow> size_ok (snd (estimate_funding_drag cfg now t px sz))"
  by (simp add: size_ok_def)

lemma size_realize: "size_ok t \<Longrightarrow> size_ok (f_trade (realize cfg now s t sz))"
  by (simp add: size_ok_def)

lemma size_close_trade_partial:
  "all_trades size_ok s \<Longrightarrow>
   all_trades size_ok (snd (close_trade_partial cfg ev tid fr r s))"
proof -
  assume a: "all_trades size_ok s"
  have "\<And>t s'. get_trade s tid = Some t \<Longrightarrow>
      0 < min (round8 (initial_size t * fr)) (remaining_size t) \<Longrightarrow>
      size_ok ((f_trade (realize cfg (e_now ev) s' t
                  (min (round8 (initial_size t * fr)) (remaining_size t))))
        \<lparr>remaining_size :=
           round8 (remaining_size t - min (round8 (initial_size t * fr)) (remaining_size t))\<rparr>)"
  proof -
    fix t s'
    assume g: "get_trade s tid = Some t"
      and p: "0 < min (round8 (initial_size t * fr)) (remaining_size t)"
    have "remaining_size t \<le> trade_size t" using all_trades_get [OF a g] by (simp add: size_ok_def)
    then show "size_ok ((f_trade (realize cfg (e_now ev) s' t
                  (min (round8 (initial_size t * fr)) (remaining_size t))))
        \<lparr>remaining_size :=
           round8 (remaining_size t - min (round8 (initial_size t * fr)) (remaining_size t))\<rparr>)"
      using partial_remaining [OF p] by (simp add: size_ok_def)
  qed
  then show ?thesis using a
    by (simp add: close_trade_partial_def Let_def all_trades_put not_le split: option.splits)
qed

lemma size_pyramid_book:
  "all_trades size_ok s \<Longrightarrow> size_ok t \<Longrightarrow> 0 \<le> add \<Longrightarrow>
   all_trades size_ok (pyramid_book ev tid t add rr_now conv trg path ex mx s)"
  by (simp add: pyramid_book_def Let_def all_trades_put size_ok_def round8_nonneg round8_mono)

lemma pyramid_add_size_pos:
  "\<not> pyramid_refused cfg s t px rr_now \<Longrightarrow> 0 < pyramid_add_size cfg t"
  by (simp add: pyramid_refused_def Let_def split: if_splits)

lemma size_try_pyramid_add:
  "all_trades size_ok s \<Longrightarrow>
   all_trades size_ok (snd (try_pyramid_add cfg ev tid px rr_now trg s))"
proof -
  assume a: "all_trades size_ok s"
  have p: "\<And>t. get_trade s tid = Some t \<Longrightarrow> size_ok t"
    using all_trades_get [OF a] .
  have q: "\<And>t. \<not> pyramid_refused cfg s t px rr_now \<Longrightarrow> 0 \<le> pyramid_add_size cfg t"
    using pyramid_add_size_pos by (simp add: less_imp_le)
  show ?thesis using a p q
    by (simp add: try_pyramid_add_def Let_def size_pyramid_book split: option.splits)
qed

lemma size_close_trade_full:
  "all_trades size_ok s \<Longrightarrow> all_trades size_ok (close_trade_full cfg ev tid r d s)"
proof -
  assume a: "all_trades size_ok s"
  have 0: "\<And>t. get_trade s tid = Some t \<Longrightarrow> 0 \<le> trade_size t"
  proof -
    fix t assume "get_trade s tid = Some t"
    then have "size_ok t" by (rule all_trades_get [OF a])
    then show "0 \<le> trade_size t" by (simp add: size_ok_def)
  qed
  have 1: "\<And>t s' sz y z w. get_trade s tid = Some t \<Longrightarrow>
      size_ok ((f_trade (realize cfg (e_now ev) s' t sz))
        \<lparr>remaining_size := 0, status := y, closed_ts := z, close_reason := w\<rparr>)"
    using 0 by (simp add: size_ok_def)
  have 2: "\<And>t y z w. get_trade s tid = Some t \<Longrightarrow>
      size_ok (t\<lparr>status := y, closed_ts := z, close_reason := w\<rparr>)"
    using all_trades_get [OF a] by (simp add: size_ok_def)
  show ?thesis using a 1 2
    by (simp add: close_trade_full_def Let_def all_trades_put split: option.splits)
qed

lemma size_funding_tick:
  "all_trades size_ok s \<Longrightarrow> all_trades size_ok (funding_tick cfg ev tid px s)"
proof -
  assume a: "all_trades size_ok s"
  have 1: "\<And>t sz. get_trade s tid = Some t \<Longrightarrow>
      size_ok (snd (estimate_funding_drag cfg (e_now ev) t px sz))"
    using size_funding_drag all_trades_get [OF a] by simp
  have 2: "\<And>t sz c. get_trade s tid = Some t \<Longrightarrow>
      size_ok ((snd (estimate_funding_drag cfg (e_now ev) t px sz))
        \<lparr>realized_funding := realized_funding (snd (estimate_funding_drag cfg (e_now ev) t px sz)) + c,
         realized_pnl := realized_pnl (snd (estimate_funding_drag cfg (e_now ev) t px sz)) - c\<rparr>)"
    using 1 by (simp add: size_ok_def)
  show ?thesis using a 1 2
    by (simp add: funding_tick_def Let_def all_trades_put split: option.splits)
qed

lemma size_update_trailing_stop: "size_ok (update_trailing_stop t px) = size_ok t"
  by (simp add: update_trailing_stop_def Let_def size_ok_def split: option.splits)

lemma size_trailing_tick:
  "all_trades size_ok s \<Longrightarrow> all_trades size_ok (trailing_tick tid px s)"
  unfolding trailing_tick_def
  by (rule all_trades_upd) (simp_all add: Let_def size_update_trailing_stop split: option.splits)

lemma size_partial_tick:
  "all_trades size_ok s \<Longrightarrow> all_trades size_ok (snd (partial_tick cfg ev tid rr_now s))"
proof -
  assume a: "all_trades size_ok s"
  have f: "\<And>s' x. all_trades size_ok s' \<Longrightarrow>
      all_trades size_ok (upd_trade tid (\<lambda>t. t\<lparr>partial_15 := x\<rparr>) s')"
      "\<And>s' x. all_trades size_ok s' \<Longrightarrow>
      all_trades size_ok (upd_trade tid (\<lambda>t. t\<lparr>partial_30 := x\<rparr>) s')"
    by (rule all_trades_upd, simp, simp add: size_ok_def)+
  show ?thesis using a
    by (simp add: partial_tick_def Let_def f size_close_trade_partial
        split: option.splits prod.splits)
qed

lemma size_pyramid_tick:
  "all_trades size_ok s \<Longrightarrow> all_trades size_ok (pyramid_tick cfg ev tid px rr_now b s)"
  by (simp add: pyramid_tick_def size_try_pyramid_add split: option.splits)

lemma size_exit_tick:
  "all_trades size_ok s \<Longrightarrow> all_trades size_ok (exit_tick cfg ev tid px s)"
proof -
  assume a: "all_trades size_ok s"
  have 2: "\<And>t y z w. get_trade s tid = Some t \<Longrightarrow>
      size_ok (t\<lparr>status := y, closed_ts := z, close_reason := w\<rparr>)"
    using all_trades_get [OF a] by (simp add: size_ok_def)
  show ?thesis using a 2
    by (simp add: exit_tick_def Let_def all_trades_put size_close_trade_full split: option.splits)
qed

lemma size_process_open_trade:
  "all_trades size_ok s \<Longrightarrow> all_trades size_ok (process_open_trade cfg ev tid s)"
  by (simp add: process_open_trade_def Let_def size_funding_tick size_trailing_tick
      size_partial_tick size_pyramid_tick size_exit_tick split: option.splits)

lemma size_monitor_ids:
  "all_trades size_ok s \<Longrightarrow> all_trades size_ok (monitor_ids cfg ev ids s)"
  by (induction ids arbitrary: s) (simp_all add: size_process_open_trade split: option.splits)

lemma size_close_ids:
  "all_trades size_ok s \<Longrightarrow> all_trades size_ok (close_ids cfg ev r ids s)"
  by (induction ids arbitrary: s) (simp_all add: size_close_trade_full split: option.splits)

lemma size_close_asset_ids:
  "all_trades size_ok s \<Longrightarrow> all_trades size_ok (close_asset_ids cfg ev a d ids s)"
  by (induction ids arbitrary: s) (simp_all add: size_close_trade_full split: option.splits)

lemma size_auto_close_after:
  "all_trades size_ok s \<Longrightarrow> all_trades size_ok (auto_close_after cfg ev tid s)"
  by (simp add: auto_close_after_def Let_def all_trades_eq [of "_\<lparr>timers := _\<rparr>"]
      size_close_trade_full split: option.splits)





lemma size_open_trade:
  "all_trades size_ok s \<Longrightarrow> 0 \<le> sz \<Longrightarrow>
   all_trades size_ok (open_trade cfg ev dec a sd sz px lev sl ps prof gate xg path s)"
  by (simp add: open_trade_def Let_def all_trades_put size_ok_def
      all_trades_eq [of "_\<lparr>timers := _\<rparr>"] split: option.splits)

lemma size_execute_open_sized:
  "all_trades size_ok s \<Longrightarrow> 0 \<le> sz \<Longrightarrow>
   all_trades size_ok
     (result_state (execute_open_sized cfg ev dec dc a px sl ps prof lev gate sz s))"
  by (simp add: execute_open_sized_def Let_def size_open_trade
      split: option.splits cong: emit_trade_event_state_cong)

lemma size_execute_open_gated:
  "all_trades size_ok s \<Longrightarrow>
   all_trades size_ok (result_state (execute_open_gated cfg ev dec dc a px sl ps s))"
  by (simp add: execute_open_gated_def Let_def size_execute_open_sized
      split: option.splits cong: emit_trade_event_state_cong)


lemma size_execute_open:
  "all_trades size_ok s \<Longrightarrow>
   all_trades size_ok (result_state (execute_open cfg ev dec dc a s))"
  by (simp add: execute_open_def Let_def size_execute_open_gated split: option.splits)

lemma size_execute_close:
  "all_trades size_ok s \<Longrightarrow>
   all_trades size_ok (execute_close cfg ev dc a d s)"
  by (simp add: execute_close_def Let_def size_close_asset_ids
      cong: emit_trade_event_state_cong)

lemma size_execute:
  "all_trades size_ok s \<Longrightarrow>
   all_trades size_ok (result_state (execute cfg ev dec s))"
  by (simp add: execute_def Let_def size_execute_open size_execute_close split: option.splits)

lemma size_apply_op:
  "all_trades size_ok s \<Longrightarrow> all_trades size_ok (apply_op cfg op s)"
  by (cases op)
    (simp_all add: size_execute monitor_tick_def size_monitor_ids size_close_trade_partial
      size_try_pyramid_add size_close_trade_full size_auto_close_after
      force_close_all_open_trades_def size_close_ids)

lemma size_run_ops:
  "all_trades size_ok s \<Longrightarrow> all_trades size_ok (run_ops cfg ops s)"
  by (induction ops arbitrary: s) (simp_all add: size_apply_op)

subsection \<open>What the operations do to the remaining size\<close>

lemma py_round_lower: "x - 1 / 2 \<le> of_int (py_round x)"
proof -
  define f where "f = \<lfloor>x\<rfloor>"
  have "x < of_int f + 1" by (simp add: f_def)
  then show ?thesis
    unfolding py_round_def Let_def f_def [symmetric]
    by (cases "x - of_int f < 1 / 2"; cases "1 / 2 < x - of_int f"; cases "even f") simp_all
qed

lemma round8_lower: "x - 1 / (2 * 10 ^ 8) \<le> round8 x"
proof -
  have "(x * 10 ^ 8 - 1 / 2) / (10 ^ 8 :: real) \<le> of_int (py_round (x * 10 ^ 8)) / 10 ^ 8"
    using py_round_lower [of "x * 10 ^ 8"] by (intro divide_right_mono) simp_all
  then show ?thesis by (simp add: round8_def diff_divide_distrib)
qed

lemma add_raises: "0 < round8 y \<Longrightarrow> r < round8 (r + round8 y)"
proof -
  assume "0 < round8 y"
  then have "1 / 10 ^ 8 \<le> round8 y" by (rule round8_pos)
  then have "r < r + round8 y - 1 / (2 * 10 ^ 8)" by simp
  then show ?thesis using round8_lower [of "r + round8 y"] by linarith
qed

lemma pyramid_add_size_round: "\<exists>y. pyramid_add_size cfg t = round8 y"
  unfolding pyramid_add_size_def Let_def by (rule exI) (rule refl)

lemma close_trade_partial_lowers:
  assumes "get_trade s tid = Some t" "fst (close_trade_partial cfg ev tid fr r s)"
  shows "\<exists>t'. get_trade (snd (close_trade_partial cfg ev tid fr r s)) tid = Some t'
           \<and> 0 \<le> remaining_size t' \<and> remaining_size t' < remaining_size t
           \<and> trade_size t' = trade_size t \<and> initial_size t' = initial_size t"
proof -
  have o: "status t = Open" using assms by (simp add: close_trade_partial_def split: if_splits)
  have p: "0 < min (round8 (initial_size t * fr)) (remaining_size t)"
    using assms o by (simp add: close_trade_partial_def Let_def not_le split: if_splits)
  have i: "initial_size (f_trade (realize cfg (e_now ev) s' t sz)) = initial_size t" for s' sz
    by (simp add: realize_def Let_def estimate_funding_drag_def split: option.splits)
  show ?thesis
    using assms o p partial_remaining [OF p]
    by (simp add: close_trade_partial_def Let_def get_trade_put_trade i split: if_splits)
qed

lemma close_trade_partial_fails:
  "\<not> fst (close_trade_partial cfg ev tid fr r s) \<Longrightarrow>
   trades (snd (close_trade_partial cfg ev tid fr r s)) = trades s"
  by (simp add: close_trade_partial_def Let_def split: option.splits if_splits)

lemma close_trade_full_remaining:
  assumes "get_trade s tid = Some t"
  shows "\<exists>t'. get_trade (close_trade_full cfg ev tid r d s) tid = Some t'
           \<and> (remaining_size t' = remaining_size t
                \<or> remaining_size t' = 0 \<and> 0 < remaining_size t)
           \<and> trade_size t' = trade_size t \<and> initial_size t' = initial_size t"
proof -
  have i: "initial_size (f_trade (realize cfg (e_now ev) s' t sz)) = initial_size t" for s' sz
    by (simp add: realize_def Let_def estimate_funding_drag_def split: option.splits)
  show ?thesis using assms
    by (simp add: close_trade_full_def Let_def get_trade_put_trade i
        split: if_splits option.splits)
qed

lemma try_pyramid_add_raises:
  assumes "get_trade s tid = Some t" "fst (try_pyramid_add cfg ev tid px rr_now trg s)"
  shows "\<exists>t'. get_trade (snd (try_pyramid_add cfg ev tid px rr_now trg s)) tid = Some t'
           \<and> remaining_size t' = round8 (remaining_size t + pyramid_add_size cfg t)
           \<and> trade_size t' = round8 (trade_size t + pyramid_add_size cfg t)
           \<and> initial_size t' = initial_size t
           \<and> remaining_size t < remaining_size t'"
proof -
  have n: "\<not> pyramid_refused cfg s t px rr_now"
    using assms by (simp add: try_pyramid_add_def split: if_splits)
  obtain y where y: "pyramid_add_size cfg t = round8 y" using pyramid_add_size_round by blast
  have "0 < round8 y" using pyramid_add_size_pos [OF n] by (simp add: y)
  then have "remaining_size t < round8 (remaining_size t + pyramid_add_size cfg t)"
    unfolding y by (rule add_raises)
  then have r: "remaining_size t < round8 (remaining_size t + pyramid_add_size cfg t)" .
  define placed where "placed = place_order cfg ev s (asset t) (py_upper (side t))
      (pyramid_add_size cfg t) px (if is_perp (asset t) then Some (leverage t) else None)
      ''simulated_pyramid'' ''pyramid_order_failed''"
  have u: "try_pyramid_add cfg ev tid px rr_now trg s
      = (case fst placed of
           None \<Rightarrow> (False, snd placed)
         | Some path \<Rightarrow>
             (True,
              pyramid_book ev tid t (pyramid_add_size cfg t) rr_now
                (sanitize_conviction (conviction t)) trg path
                (if 0 < equity s
                 then Some ((max 0 (remaining_size t * px) + pyramid_add_size cfg t * px)
                              / max (equity s) (1 / 10 ^ 12) * 100)
                 else None)
                (pyramid_max_exposure_pct cfg) (snd placed)))"
    using assms(1) n unfolding placed_def try_pyramid_add_def Let_def by simp
  obtain path where p: "fst placed = Some path"
    using assms(2) unfolding u by (cases "fst placed") simp_all
  show ?thesis
    using r unfolding u p
    by (simp add: pyramid_book_def Let_def get_trade_put_trade)
qed

text \<open>
  C1, as the ledger keeps it. A pyramid add raises the size and the remaining size of a trade
  and leaves its initial size, so the bound that holds is the size. From a ledger whose trades
  all have their remaining size between zero and their size (an empty ledger in particular),
  every sequence of operations leads to one. A partial close that goes through lowers the
  remaining size, strictly, and leaves the size; one that does not go through changes no
  trade. A full close leaves the remaining size or sets it to zero. A pyramid add that goes
  through raises size and remaining size by the same rounded add, strictly.
\<close>

theorem remaining_size_bounds:
  "(all_trades size_ok s \<longrightarrow> all_trades size_ok (run_ops cfg ops s))
   \<and> (trades s = [] \<longrightarrow>
        (\<forall>kt \<in> set (trades (run_ops cfg ops s)).
           0 \<le> remaining_size (snd kt) \<and> remaining_size (snd kt) \<le> trade_size (snd kt)))
   \<and> (get_trade s tid = Some t \<and> fst (close_trade_partial cfg ev tid fr r s) \<longrightarrow>
        (\<exists>t'. get_trade (snd (close_trade_partial cfg ev tid fr r s)) tid = Some t'
           \<and> 0 \<le> remaining_size t' \<and> remaining_size t' < remaining_size t
           \<and> trade_size t' = trade_size t \<and> initial_size t' = initial_size t))
   \<and> (\<not> fst (close_trade_partial cfg ev tid fr r s) \<longrightarrow>
        trades (snd (close_trade_partial cfg ev tid fr r s)) = trades s)
   \<and> (get_trade s tid = Some t \<longrightarrow>
        (\<exists>t'. get_trade (close_trade_full cfg ev tid r d s) tid = Some t'
           \<and> (remaining_size t' = remaining_size t
                \<or> remaining_size t' = 0 \<and> 0 < remaining_size t)
           \<and> trade_size t' = trade_size t \<and> initial_size t' = initial_size t))
   \<and> (get_trade s tid = Some t \<and> fst (try_pyramid_add cfg ev tid px rr_now trg s) \<longrightarrow>
        (\<exists>t'. get_trade (snd (try_pyramid_add cfg ev tid px rr_now trg s)) tid = Some t'
           \<and> remaining_size t' = round8 (remaining_size t + pyramid_add_size cfg t)
           \<and> trade_size t' = round8 (trade_size t + pyramid_add_size cfg t)
           \<and> initial_size t' = initial_size t
           \<and> remaining_size t < remaining_size t'))"
proof (intro conjI impI)
  assume "all_trades size_ok s"
  then show "all_trades size_ok (run_ops cfg ops s)" by (rule size_run_ops)
next
  assume "trades s = []"
  then have "all_trades size_ok s" by (simp add: all_trades_def)
  then have "all_trades size_ok (run_ops cfg ops s)" by (rule size_run_ops)
  then show "\<forall>kt \<in> set (trades (run_ops cfg ops s)).
      0 \<le> remaining_size (snd kt) \<and> remaining_size (snd kt) \<le> trade_size (snd kt)"
    by (simp add: all_trades_def list_all_iff size_ok_def)
next
  assume "get_trade s tid = Some t \<and> fst (close_trade_partial cfg ev tid fr r s)"
  then show "\<exists>t'. get_trade (snd (close_trade_partial cfg ev tid fr r s)) tid = Some t'
           \<and> 0 \<le> remaining_size t' \<and> remaining_size t' < remaining_size t
           \<and> trade_size t' = trade_size t \<and> initial_size t' = initial_size t"
    using close_trade_partial_lowers [of s tid t cfg ev fr r] by simp
next
  assume "\<not> fst (close_trade_partial cfg ev tid fr r s)"
  then show "trades (snd (close_trade_partial cfg ev tid fr r s)) = trades s"
    by (rule close_trade_partial_fails)
next
  assume "get_trade s tid = Some t"
  then show "\<exists>t'. get_trade (close_trade_full cfg ev tid r d s) tid = Some t'
           \<and> (remaining_size t' = remaining_size t
                \<or> remaining_size t' = 0 \<and> 0 < remaining_size t)
           \<and> trade_size t' = trade_size t \<and> initial_size t' = initial_size t"
    by (rule close_trade_full_remaining)
next
  assume "get_trade s tid = Some t \<and> fst (try_pyramid_add cfg ev tid px rr_now trg s)"
  then show "\<exists>t'. get_trade (snd (try_pyramid_add cfg ev tid px rr_now trg s)) tid = Some t'
           \<and> remaining_size t' = round8 (remaining_size t + pyramid_add_size cfg t)
           \<and> trade_size t' = round8 (trade_size t + pyramid_add_size cfg t)
           \<and> initial_size t' = initial_size t
           \<and> remaining_size t < remaining_size t'"
    using try_pyramid_add_raises [of s tid t cfg ev px rr_now trg] by simp
qed

lemma runner_facts:
  "all_trades size_ok runner_state"
  "get_trade runner_state ''trade-1'' = Some runner_trade"
  "fst (close_trade_partial default_config env0 ''trade-1'' 0.5 ''1.5R'' runner_state)"
  "fst (try_pyramid_add default_config env0 ''trade-1'' 51800 (Some 2) ''rr_cross'' runner_state)"
  "remaining_size runner_trade = 1" "trade_size runner_trade = 1"
  "initial_size runner_trade = 1" "pyramid_add_size default_config runner_trade = 0.3"
  by code_simp+

theorem remaining_size_bounds_witness:
  "all_trades size_ok
     (run_ops default_config [Monitor_tick env0, Monitor_tick env0] runner_state)
   \<and> list_all (\<lambda>kt. 0 \<le> remaining_size (snd kt) \<and> remaining_size (snd kt) \<le> trade_size (snd kt))
       (trades (run_ops default_config
          [Feed_price ''BTC-PERP-INTX'' (Some 50000),
           Execute env0 (hold_decision\<lparr>d_decision := ''open_long''\<rparr>),
           Monitor_tick (env0\<lparr>e_now := 3600\<rparr>)] initial_state))
   \<and> (\<exists>t'. get_trade (snd (close_trade_partial default_config env0 ''trade-1'' 0.5 ''1.5R''
                               runner_state)) ''trade-1'' = Some t'
         \<and> 0 \<le> remaining_size t' \<and> remaining_size t' < 1
         \<and> trade_size t' = 1 \<and> initial_size t' = 1)
   \<and> trades (snd (close_trade_partial default_config env0 ''trade-2'' 0.5 ''1.5R'' runner_state))
       = trades runner_state
   \<and> (\<exists>t'. get_trade (close_trade_full default_config env0 ''trade-1'' ''stop'' None
                          runner_state) ''trade-1'' = Some t'
         \<and> (remaining_size t' = 1 \<or> remaining_size t' = 0)
         \<and> trade_size t' = 1 \<and> initial_size t' = 1)
   \<and> (\<exists>t'. get_trade (snd (try_pyramid_add default_config env0 ''trade-1'' 51800 (Some 2)
                               ''rr_cross'' runner_state)) ''trade-1'' = Some t'
         \<and> remaining_size t' = round8 (1 + 0.3) \<and> trade_size t' = round8 (1 + 0.3)
         \<and> initial_size t' = 1 \<and> 1 < remaining_size t')"
proof -
  have e: "trades initial_state = []" by (simp add: initial_state_def)
  have n: "\<not> fst (close_trade_partial default_config env0 ''trade-2'' 0.5 ''1.5R'' runner_state)"
    by code_simp
  show ?thesis
    using remaining_size_bounds [where s = runner_state and cfg = default_config
        and ops = "[Monitor_tick env0, Monitor_tick env0]" and tid = "''trade-1''"
        and t = runner_trade and ev = env0 and fr = "0.5" and r = "''1.5R''"
        and px = 51800 and rr_now = "Some 2" and trg = "''rr_cross''"]
      remaining_size_bounds [where s = runner_state and cfg = default_config
        and tid = "''trade-1''" and t = runner_trade and ev = env0 and r = "''stop''"
        and d = None]
      remaining_size_bounds [where s = runner_state and cfg = default_config
        and tid = "''trade-2''" and ev = env0 and fr = "0.5" and r = "''1.5R''"]
      remaining_size_bounds [where s = initial_state and cfg = default_config
        and ops = "[Feed_price ''BTC-PERP-INTX'' (Some 50000),
           Execute env0 (hold_decision\<lparr>d_decision := ''open_long''\<rparr>),
           Monitor_tick (env0\<lparr>e_now := 3600\<rparr>)]"]
      runner_facts e n
    by (simp only: list_all_iff) simp
qed

text \<open>
  C1 as written fails. A long trade of one contract bought at 50,000 with its stop at 49,100
  stands at a risk/reward of 2 when the price is 51,800. The first monitor tick closes half
  of it and adds 0.3 by the pyramid rule: 0.8 remain. The second tick adds 0.3 again: 1.1
  remain, more than before and more than the initial size of 1, on a trade that is still open.
\<close>

theorem remaining_size_claim_counterexample:
  "map_option remaining_size (get_trade runner_state ''trade-1'') = Some 1
   \<and> map_option remaining_size
        (get_trade (run_ops default_config [Monitor_tick env0] runner_state) ''trade-1'')
       = Some 0.8
   \<and> map_option remaining_size
        (get_trade (run_ops default_config [Monitor_tick env0, Monitor_tick env0] runner_state)
           ''trade-1'')
       = Some 1.1
   \<and> map_option initial_size
        (get_trade (run_ops default_config [Monitor_tick env0, Monitor_tick env0] runner_state)
           ''trade-1'')
       = Some 1
   \<and> map_option status
        (get_trade (run_ops default_config [Monitor_tick env0, Monitor_tick env0] runner_state)
           ''trade-1'')
       = Some Open"
  by code_simp

end
